theory Spec2Isabelle
  imports Complex_Main "HOL-Library.Word"
begin

unbundle bit_operations_syntax

section \<open>Machine types\<close>

text \<open>
  \<^verbatim>\<open>unsigned int\<close> is a 32-bit word whose arithmetic wraps around. The kernels' \<^verbatim>\<open>int\<close>
  is a 32-bit word as well, read in two's complement by \<open>sint\<close>; its arithmetic wraps as
  the device's does. \<^verbatim>\<open>size_t\<close>, the type of \<^verbatim>\<open>sizeof\<close>, has 64 bits.
\<close>

type_synonym u32 = "32 word"
type_synonym i32 = "32 word"
type_synonym size_t = "64 word"

text \<open>\<^verbatim>\<open>dim3\<close> and \<^verbatim>\<open>uint3\<close>: three unsigned components.\<close>

record dim3 =
  dim_x :: u32
  dim_y :: u32
  dim_z :: u32

text \<open>
  What one unit (thread) of a launch knows of its place: the built-in variables
  \<^verbatim>\<open>blockIdx\<close>, \<^verbatim>\<open>blockDim\<close> and \<^verbatim>\<open>threadIdx\<close>.
\<close>

record unit_id =
  blockIdx :: dim3
  blockDim :: dim3
  threadIdx :: dim3

section \<open>Device memory seen by a kernel\<close>

text \<open>
  A kernel argument \<^verbatim>\<open>T *p\<close> points to a buffer of elements, a list here. An access
  \<^verbatim>\<open>p[i]\<close> outside the buffer is an illegal address, made explicit as a fault.
\<close>

datatype fault = IllegalAddress

definition load :: "'a list \<Rightarrow> u32 \<Rightarrow> fault + 'a" where
  "load p i = (if unat i < length p then Inr (p ! unat i) else Inl IllegalAddress)"

definition store :: "'a list \<Rightarrow> u32 \<Rightarrow> 'a \<Rightarrow> fault + 'a list" where
  "store p i v = (if unat i < length p then Inr (p[unat i := v]) else Inl IllegalAddress)"

section \<open>Kernels\<close>

text \<open>
  Each kernel is the function one unit runs: from its identity, the input buffers and
  the output buffer \<open>c\<close> to the output buffer after the unit has run, or a fault.
\<close>

subsection \<open>vector\_sum\_float\_opt.cu: vectorAdd\<close>

definition vectorAdd :: "unit_id \<Rightarrow> ('a::plus) list \<Rightarrow> 'a list \<Rightarrow> 'a list \<Rightarrow> u32 \<Rightarrow> fault + 'a list" where
  "vectorAdd t a b c dim' =
     (let pos = dim_x (blockIdx t) * dim_x (blockDim t) + dim_x (threadIdx t) in
      if pos \<ge> dim' then Inr c
      else (case load a pos of Inl f \<Rightarrow> Inl f | Inr va \<Rightarrow>
           (case load b pos of Inl f \<Rightarrow> Inl f | Inr vb \<Rightarrow>
              store c pos (va + vb))))"

subsection \<open>addvec\_threads.cu: add\<close>

text \<open>\<^verbatim>\<open>#define N 512\<close>\<close>

definition N :: u32 where
  "N = 512"

text \<open>The kernel \<^verbatim>\<open>add\<close> of addvec\_threads.cu: no comparison with any extent.\<close>

definition add_threads :: "unit_id \<Rightarrow> i32 list \<Rightarrow> i32 list \<Rightarrow> i32 list \<Rightarrow> fault + i32 list" where
  "add_threads t a b c =
     (case load a (dim_x (threadIdx t)) of Inl f \<Rightarrow> Inl f | Inr va \<Rightarrow>
     (case load b (dim_x (threadIdx t)) of Inl f \<Rightarrow> Inl f | Inr vb \<Rightarrow>
        store c (dim_x (threadIdx t)) (va + vb)))"

subsection \<open>matrix\_add\_nxm\_float.cu: matrixAdd and the older add\<close>

definition matrixAdd :: "unit_id \<Rightarrow> ('a::plus) list \<Rightarrow> 'a list \<Rightarrow> 'a list \<Rightarrow> u32 \<Rightarrow> u32 \<Rightarrow> fault + 'a list" where
  "matrixAdd t a b c dimX dimY =
     (let iX = dim_x (blockIdx t) * dim_x (blockDim t) + dim_x (threadIdx t);
          iY = dim_y (blockIdx t) * dim_y (blockDim t) + dim_y (threadIdx t) in
      if iX \<ge> dimX \<or> iY \<ge> dimY then Inr c
      else (let pos = iY * dimX + iX in
           (case load a pos of Inl f \<Rightarrow> Inl f | Inr va \<Rightarrow>
           (case load b pos of Inl f \<Rightarrow> Inl f | Inr vb \<Rightarrow>
              store c pos (va + vb)))))"

text \<open>The older variant's kernel, also called \<^verbatim>\<open>add\<close>, with the test the other way round.\<close>

definition add_matrix :: "unit_id \<Rightarrow> ('a::plus) list \<Rightarrow> 'a list \<Rightarrow> 'a list \<Rightarrow> u32 \<Rightarrow> u32 \<Rightarrow> fault + 'a list" where
  "add_matrix t a b c dimX dimY =
     (let iX = dim_x (blockIdx t) * dim_x (blockDim t) + dim_x (threadIdx t);
          iY = dim_y (blockIdx t) * dim_y (blockDim t) + dim_y (threadIdx t) in
      if iX < dimX \<and> iY < dimY then
        (let pos = iY * dimX + iX in
        (case load a pos of Inl f \<Rightarrow> Inl f | Inr va \<Rightarrow>
        (case load b pos of Inl f \<Rightarrow> Inl f | Inr vb \<Rightarrow>
           store c pos (va + vb))))
      else Inr c)"

subsection \<open>matrix\_mul\_nxm\_int.cu: matrixMul\<close>

text \<open>
  The loop \<^verbatim>\<open>for (unsigned int k = 0; k < dimX1; k++) val += a[iY * dimX1 + k] * b[k * dimX2 + iX];\<close>
  from the state \<open>(k, val)\<close>.
\<close>

function matrixMul_loop :: "i32 list \<Rightarrow> i32 list \<Rightarrow> u32 \<Rightarrow> u32 \<Rightarrow> u32 \<Rightarrow> u32 \<Rightarrow> u32 \<Rightarrow> i32 \<Rightarrow> fault + i32" where
  "matrixMul_loop a b dimX1 dimX2 iX iY k val =
     (if k < dimX1 then
        (case load a (iY * dimX1 + k) of Inl f \<Rightarrow> Inl f | Inr va \<Rightarrow>
        (case load b (k * dimX2 + iX) of Inl f \<Rightarrow> Inl f | Inr vb \<Rightarrow>
           matrixMul_loop a b dimX1 dimX2 iX iY (k + 1) (val + va * vb)))
      else Inr val)"
  by pat_completeness auto
termination
proof (relation "measure (\<lambda>(a, b, dimX1, dimX2, iX, iY, k, val). unat dimX1 - unat k)")
  show "wf (measure (\<lambda>(a :: i32 list, b :: i32 list, dimX1 :: u32, dimX2 :: u32,
              iX :: u32, iY :: u32, k :: u32, val :: i32). unat dimX1 - unat k))"
    by simp
next
  fix a b :: "i32 list" and dimX1 dimX2 iX iY k :: u32 and val va vb :: i32
  assume "k < dimX1"
  then have lt: "unat k < unat dimX1"
    by (simp add: word_less_nat_alt)
  moreover have "unat dimX1 < 2 ^ 32"
    using unsigned_less [of dimX1] by simp
  ultimately have "unat k + 1 < 2 ^ 32"
    by simp
  then have "unat (k + 1) = Suc (unat k)"
    by (simp add: unat_word_ariths)
  with lt show "((a, b, dimX1, dimX2, iX, iY, k + 1, val + va * vb), (a, b, dimX1, dimX2, iX, iY, k, val))
      \<in> measure (\<lambda>(a, b, dimX1, dimX2, iX, iY, k, val). unat dimX1 - unat k)"
    by simp
qed

definition matrixMul :: "unit_id \<Rightarrow> i32 list \<Rightarrow> i32 list \<Rightarrow> i32 list \<Rightarrow> u32 \<Rightarrow> u32 \<Rightarrow> u32 \<Rightarrow> fault + i32 list" where
  "matrixMul t a b c dimX1 dimY1 dimX2 =
     (let iX = dim_x (blockIdx t) * dim_x (blockDim t) + dim_x (threadIdx t);
          iY = dim_y (blockIdx t) * dim_y (blockDim t) + dim_y (threadIdx t) in
      if iX \<ge> dimX2 \<or> iY \<ge> dimY1 then Inr c
      else (let pos = iY * dimX2 + iX in
           (case matrixMul_loop a b dimX1 dimX2 iX iY 0 0 of Inl f \<Rightarrow> Inl f | Inr val \<Rightarrow>
              store c pos val)))"

subsection \<open>The units of a launch\<close>

text \<open>
  A launch \<^verbatim>\<open>kernel<<< gridDim, blockDim >>>\<close> runs one unit for every block index below
  the grid dimension and every thread index below the block dimension, on each axis.
\<close>

definition below :: "dim3 \<Rightarrow> dim3 \<Rightarrow> bool" where
  "below i d \<longleftrightarrow> dim_x i < dim_x d \<and> dim_y i < dim_y d \<and> dim_z i < dim_z d"

definition unit_of :: "dim3 \<Rightarrow> dim3 \<Rightarrow> unit_id \<Rightarrow> bool" where
  "unit_of gridDim blockDim' t \<longleftrightarrow>
     blockDim t = blockDim' \<and> below (blockIdx t) gridDim \<and> below (threadIdx t) blockDim'"

text \<open>The coordinate a unit computes on each axis, in \<^verbatim>\<open>unsigned int\<close> arithmetic.\<close>

definition coord_x :: "unit_id \<Rightarrow> u32" where
  "coord_x t = dim_x (blockIdx t) * dim_x (blockDim t) + dim_x (threadIdx t)"

definition coord_y :: "unit_id \<Rightarrow> u32" where
  "coord_y t = dim_y (blockIdx t) * dim_y (blockDim t) + dim_y (threadIdx t)"

section \<open>Grid settings\<close>

text \<open>The constructors \<^verbatim>\<open>dim3 d(x)\<close> and \<^verbatim>\<open>dim3 d(x, y)\<close>: missing components are 1.\<close>

definition dim3_1 :: "u32 \<Rightarrow> dim3" where
  "dim3_1 gx = \<lparr>dim_x = gx, dim_y = 1, dim_z = 1\<rparr>"

definition dim3_2 :: "u32 \<Rightarrow> u32 \<Rightarrow> dim3" where
  "dim3_2 gx gy = \<lparr>dim_x = gx, dim_y = gy, dim_z = 1\<rparr>"

text \<open>Unsigned division; dividing by zero has no value.\<close>

definition udiv :: "u32 \<Rightarrow> u32 \<Rightarrow> u32 option" where
  "udiv p q = (if q = 0 then None else Some (p div q))"

text \<open>
  vector\_sum\_float\_opt.cu: \<^verbatim>\<open>gridSize = (vectorDim + blockSize - 1) / blockSize;\<close>
\<close>

definition gridSize_vector :: "u32 \<Rightarrow> u32 \<Rightarrow> u32 option" where
  "gridSize_vector vectorDim blockSize = udiv (vectorDim + blockSize - 1) blockSize"

text \<open>
  The matrix programs, on each axis:
  \<^verbatim>\<open>gridSizeX = dimX / blockSize; if (gridSizeX * blockSize < dimX) { gridSizeX += 1; }\<close>
\<close>

definition gridSize_matrix :: "u32 \<Rightarrow> u32 \<Rightarrow> u32 option" where
  "gridSize_matrix matrixDim blockSize =
     (case udiv matrixDim blockSize of None \<Rightarrow> None
      | Some gridSize \<Rightarrow> Some (if gridSize * blockSize < matrixDim then gridSize + 1 else gridSize))"

text \<open>matrix\_add\_nxm\_float.cu, both variants: the pair \<open>(gridDim, blockDim)\<close>.\<close>

definition grid_settings_add :: "u32 \<Rightarrow> u32 \<Rightarrow> u32 \<Rightarrow> (dim3 \<times> dim3) option" where
  "grid_settings_add matrixDimX matrixDimY blockSize =
     (case gridSize_matrix matrixDimX blockSize of None \<Rightarrow> None
      | Some gridSizeX \<Rightarrow>
     (case gridSize_matrix matrixDimY blockSize of None \<Rightarrow> None
      | Some gridSizeY \<Rightarrow> Some (dim3_2 gridSizeX gridSizeY, dim3_2 blockSize blockSize)))"

text \<open>matrix\_mul\_nxm\_int.cu: each axis is sized from the larger of the two matrices.\<close>

definition grid_settings_mul :: "u32 \<Rightarrow> u32 \<Rightarrow> u32 \<Rightarrow> u32 \<Rightarrow> u32 \<Rightarrow> (dim3 \<times> dim3) option" where
  "grid_settings_mul matrixDimX1 matrixDimY1 matrixDimX2 matrixDimY2 blockSize =
     (let maxDimX = max matrixDimX1 matrixDimX2 in
      case gridSize_matrix maxDimX blockSize of None \<Rightarrow> None
      | Some gridSizeX \<Rightarrow>
     (let maxDimY = max matrixDimY1 matrixDimY2 in
      case gridSize_matrix maxDimY blockSize of None \<Rightarrow> None
      | Some gridSizeY \<Rightarrow> Some (dim3_2 gridSizeX gridSizeY, dim3_2 blockSize blockSize)))"

section \<open>Buffer sizes\<close>

text \<open>
  \<^verbatim>\<open>REAL\<close> is \<^verbatim>\<open>double\<close> when \<^verbatim>\<open>DOUBLE\<close> is defined and \<^verbatim>\<open>float\<close> otherwise.
\<close>

datatype precision = Single | Double

definition sizeof_REAL :: "precision \<Rightarrow> size_t" where
  "sizeof_REAL p = (case p of Single \<Rightarrow> 4 | Double \<Rightarrow> 8)"

definition sizeof_int :: size_t where
  "sizeof_int = 4"

text \<open>
  \<^verbatim>\<open>const unsigned int size = vectorDim * sizeof(REAL);\<close> The operand is converted to
  \<^verbatim>\<open>size_t\<close>, multiplied there, and the product is converted to \<^verbatim>\<open>unsigned int\<close>.
\<close>

definition vector_size :: "size_t \<Rightarrow> u32 \<Rightarrow> u32" where
  "vector_size sizeof_elem vectorDim = ucast ((ucast vectorDim :: size_t) * sizeof_elem)"

text \<open>
  \<^verbatim>\<open>const unsigned int size = matrixDimX * matrixDimY * sizeof(REAL);\<close> The first product
  is one of two \<^verbatim>\<open>unsigned int\<close>; the second is taken in \<^verbatim>\<open>size_t\<close>.
\<close>

definition matrix_size :: "size_t \<Rightarrow> u32 \<Rightarrow> u32 \<Rightarrow> u32" where
  "matrix_size sizeof_elem matrixDimX matrixDimY =
     ucast ((ucast (matrixDimX * matrixDimY) :: size_t) * sizeof_elem)"

section \<open>Host programs\<close>

subsection \<open>Calls, failures and the device\<close>

datatype buffer = Host_a | Host_b | Host_c | Host_expected | Dev_a | Dev_b | Dev_c

datatype kernel = VectorAdd | Add_threads | MatrixAdd | Add_matrix | MatrixMul

datatype direction = HostToDevice | DeviceToHost

text \<open>
  The statements of the host programs that act on memory or on the device. A copy names
  destination, source and byte count, as \<^verbatim>\<open>cudaMemcpy\<close> does; a launch names the kernel,
  \<open>gridDim\<close>, \<open>blockDim\<close> and the dimension arguments. \<open>Random\<close> fills a host array,
  \<open>Reference\<close> computes the expected result on the host, \<open>Report\<close> prints
  \<^verbatim>\<open>Correct\<close> or \<^verbatim>\<open>Error\<close>.
\<close>

datatype call =
    CudaGetDeviceProperties
  | CudaMallocHost buffer u32
  | Malloc buffer u32
  | CudaMalloc buffer u32
  | Random buffer
  | CudaMemcpy buffer buffer u32 direction
  | CudaMemcpyAsync buffer buffer u32 direction
  | Launch kernel dim3 dim3 "u32 list"
  | Reference
  | Report bool
  | CudaFree buffer
  | CudaFreeHost buffer
  | Free buffer

text \<open>The ways a program ends early, with the name and the value its message prints.\<close>

datatype error =
    Usage
  | ExpectedGE1 string u32
  | ExpectedEqual string string u32 u32
  | ExpectedPowerOf2 string u32
  | DivisionByZero
  | CallFailed call

datatype outcome = Exit error | Return0

text \<open>
  The error kinds of the specification: an extent or a group size below 1 and a
  dimension mismatch are \<open>InvalidDimension\<close>, a group size that is not a power of two
  is \<open>InvalidGroupShape\<close>.
\<close>

datatype error_class = UsageError | InvalidDimension | InvalidGroupShape | ArithmeticFault | ResourceFailure

fun classify :: "error \<Rightarrow> error_class" where
  "classify Usage = UsageError"
| "classify (ExpectedGE1 name v) = InvalidDimension"
| "classify (ExpectedEqual name other v w) = InvalidDimension"
| "classify (ExpectedPowerOf2 name v) = InvalidGroupShape"
| "classify DivisionByZero = ArithmeticFault"
| "classify (CallFailed c) = ResourceFailure"

text \<open>
  Modelled from the spec: the macro \<^verbatim>\<open>IS_POWER_OF_2\<close> of common/mathutil.h is not among
  the sources. The specification says that the group size "must be a power of two":
  one of \<open>2 ^ 0\<close>, ..., \<open>2 ^ 31\<close> for an \<^verbatim>\<open>unsigned int\<close>.
\<close>

definition IS_POWER_OF_2 :: "u32 \<Rightarrow> bool" where
  "IS_POWER_OF_2 v \<longleftrightarrow> v \<in> set (map (\<lambda>k. 2 ^ k) [0..<32])"

text \<open>
  Modelled from the spec: the macros \<^verbatim>\<open>HANDLE_ERROR\<close> and \<^verbatim>\<open>HANDLE_NULL\<close> of
  common/error.h are not among the sources. The specification calls them helpers that
  translate an error code, and the errors they report "fatal to the current operation".
  They wrap one call and see its result only, so a call that fails ends the program at
  that call and no later statement runs. \<open>checked\<close> tells the calls the programs wrap.
\<close>

fun checked :: "call \<Rightarrow> bool" where
  "checked CudaGetDeviceProperties = True"
| "checked (CudaMallocHost h n) = True"
| "checked (Malloc h n) = True"
| "checked (CudaMalloc h n) = True"
| "checked (CudaMemcpy dst src n k) = True"
| "checked (CudaMemcpyAsync dst src n k) = True"
| "checked (CudaFree h) = True"
| "checked (CudaFreeHost h) = True"
| "checked (Random h) = False"
| "checked (Launch f g b args) = False"
| "checked Reference = False"
| "checked (Report r) = False"
| "checked (Free h) = False"

text \<open>
  The device as the host program sees it: the device buffers allocated and not yet
  freed, and the calls made so far, in order. All copies and launches of a program go
  to the one default stream, which runs them in the order of issue.
\<close>

record device =
  outstanding :: "buffer list"
  trace :: "call list"

definition start :: device where
  "start = \<lparr>outstanding = [], trace = []\<rparr>"

definition effect :: "call \<Rightarrow> device \<Rightarrow> device" where
  "effect c d =
     \<lparr>outstanding = (case c of CudaMalloc h n \<Rightarrow> h # outstanding d
                      | CudaFree h \<Rightarrow> remove1 h (outstanding d)
                      | _ \<Rightarrow> outstanding d),
      trace = trace d @ [c]\<rparr>"

text \<open>
  A program is a straight line of calls. \<open>ok\<close> tells which calls succeed; the first
  checked call that fails ends the run.
\<close>

fun run :: "(call \<Rightarrow> bool) \<Rightarrow> call list \<Rightarrow> device \<Rightarrow> error option \<times> device" where
  "run ok [] d = (None, d)"
| "run ok (c # cs) d =
     (if checked c \<and> \<not> ok c then (Some (CallFailed c), d) else run ok cs (effect c d))"

definition finish :: "error option \<times> device \<Rightarrow> outcome \<times> device" where
  "finish r = (case fst r of None \<Rightarrow> (Return0, snd r) | Some e \<Rightarrow> (Exit e, snd r))"

subsection \<open>vector\_sum\_float\_opt.cu\<close>

definition gpuVectorAdd :: "precision \<Rightarrow> u32 \<Rightarrow> dim3 \<Rightarrow> dim3 \<Rightarrow> call list" where
  "gpuVectorAdd p vectorDim gridDim blockDim' =
     (let size' = vector_size (sizeof_REAL p) vectorDim in
      [CudaMalloc Dev_a size', CudaMalloc Dev_b size', CudaMalloc Dev_c size',
       CudaMemcpyAsync Dev_a Host_a size' HostToDevice,
       CudaMemcpyAsync Dev_b Host_b size' HostToDevice,
       Launch VectorAdd gridDim blockDim' [vectorDim],
       CudaMemcpy Host_c Dev_c size' DeviceToHost,
       CudaFree Dev_a, CudaFree Dev_b, CudaFree Dev_c])"

definition check_vector_sum :: "u32 \<Rightarrow> u32 \<Rightarrow> error option" where
  "check_vector_sum vectorDim blockSize =
     (if vectorDim < 1 then Some (ExpectedGE1 ''vectorDim'' vectorDim)
      else if \<not> IS_POWER_OF_2 blockSize then Some (ExpectedPowerOf2 ''blockSize'' blockSize)
      else None)"

text \<open>
  \<open>main\<close>, from the values \<^verbatim>\<open>atoi(argv[1])\<close>, \<^verbatim>\<open>atoi(argv[2])\<close>, ... The \<^verbatim>\<open>int\<close> that
  \<^verbatim>\<open>atoi\<close> returns is stored in an \<^verbatim>\<open>unsigned int\<close> variable, which keeps its 32 bits:
  \<open>sint\<close> reads an argument as the number given on the command line, and the checks and
  all later arithmetic read it unsigned. \<open>correct\<close> is the answer of the comparison with
  the expected result.
\<close>

fun main_vector_sum :: "precision \<Rightarrow> (call \<Rightarrow> bool) \<Rightarrow> bool \<Rightarrow> u32 list \<Rightarrow> outcome \<times> device" where
  "main_vector_sum p ok correct (vectorDim # blockSize # rest) =
     (case check_vector_sum vectorDim blockSize of Some e \<Rightarrow> (Exit e, start)
      | None \<Rightarrow>
     (case gridSize_vector vectorDim blockSize of None \<Rightarrow> (Exit DivisionByZero, start)
      | Some gridSize \<Rightarrow>
        (let gridDim = dim3_1 gridSize; blockDim' = dim3_1 blockSize;
             size' = vector_size (sizeof_REAL p) vectorDim in
         finish (run ok
           ([CudaGetDeviceProperties,
             CudaMallocHost Host_a size', CudaMallocHost Host_b size', CudaMallocHost Host_c size',
             Random Host_a, Random Host_b]
            @ gpuVectorAdd p vectorDim gridDim blockDim'
            @ [Malloc Host_expected size', Reference, Report correct,
               CudaFreeHost Host_a, CudaFreeHost Host_b, CudaFreeHost Host_c, Free Host_expected])
           start))))"
| "main_vector_sum p ok correct args = (Exit Usage, start)"

subsection \<open>matrix\_mul\_nxm\_int.cu\<close>

definition gpuMatrixMul :: "u32 \<Rightarrow> u32 \<Rightarrow> u32 \<Rightarrow> u32 \<Rightarrow> dim3 \<Rightarrow> dim3 \<Rightarrow> call list" where
  "gpuMatrixMul matrixDimX1 matrixDimY1 matrixDimX2 matrixDimY2 gridDim blockDim' =
     (let size_a = matrix_size sizeof_int matrixDimX1 matrixDimY1;
          size_b = matrix_size sizeof_int matrixDimX2 matrixDimY2;
          size_c = matrix_size sizeof_int matrixDimY1 matrixDimX2 in
      [CudaMalloc Dev_a size_a, CudaMalloc Dev_b size_b, CudaMalloc Dev_c size_c,
       CudaMemcpy Dev_a Host_a size_a HostToDevice,
       CudaMemcpy Dev_b Host_b size_b HostToDevice,
       Launch MatrixMul gridDim blockDim' [matrixDimX1, matrixDimY1, matrixDimX2],
       CudaMemcpy Host_c Dev_c size_c DeviceToHost,
       CudaFree Dev_a, CudaFree Dev_b, CudaFree Dev_c])"

definition check_matrix_mul :: "u32 \<Rightarrow> u32 \<Rightarrow> u32 \<Rightarrow> u32 \<Rightarrow> u32 \<Rightarrow> error option" where
  "check_matrix_mul matrixDimX1 matrixDimY1 matrixDimX2 matrixDimY2 blockSize =
     (if matrixDimX1 < 1 then Some (ExpectedGE1 ''matrixDimX1'' matrixDimX1)
      else if matrixDimY1 < 1 then Some (ExpectedGE1 ''matrixDimY1'' matrixDimY1)
      else if matrixDimX2 < 1 then Some (ExpectedGE1 ''matrixDimX2'' matrixDimX2)
      else if matrixDimY2 \<noteq> matrixDimX1
        then Some (ExpectedEqual ''matrixDimY2'' ''matrixDimX1'' matrixDimX1 matrixDimY2)
      else if \<not> IS_POWER_OF_2 blockSize then Some (ExpectedPowerOf2 ''blockSize'' blockSize)
      else None)"

fun main_matrix_mul :: "(call \<Rightarrow> bool) \<Rightarrow> bool \<Rightarrow> u32 list \<Rightarrow> outcome \<times> device" where
  "main_matrix_mul ok correct (matrixDimX1 # matrixDimY1 # matrixDimX2 # matrixDimY2 # blockSize # rest) =
     (case check_matrix_mul matrixDimX1 matrixDimY1 matrixDimX2 matrixDimY2 blockSize of
        Some e \<Rightarrow> (Exit e, start)
      | None \<Rightarrow>
     (case grid_settings_mul matrixDimX1 matrixDimY1 matrixDimX2 matrixDimY2 blockSize of
        None \<Rightarrow> (Exit DivisionByZero, start)
      | Some (gridDim, blockDim') \<Rightarrow>
        (let size_a = matrix_size sizeof_int matrixDimX1 matrixDimY1;
             size_b = matrix_size sizeof_int matrixDimX2 matrixDimY2;
             size_c = matrix_size sizeof_int matrixDimY1 matrixDimX2 in
         finish (run ok
           ([CudaGetDeviceProperties,
             Malloc Host_a size_a, Malloc Host_b size_b, Malloc Host_c size_c,
             Random Host_a, Random Host_b]
            @ gpuMatrixMul matrixDimX1 matrixDimY1 matrixDimX2 matrixDimY2 gridDim blockDim'
            @ [Malloc Host_expected size_c, Reference, Report correct,
               Free Host_a, Free Host_b, Free Host_c, Free Host_expected])
           start))))"
| "main_matrix_mul ok correct args = (Exit Usage, start)"

subsection \<open>matrix\_add\_nxm\_float.cu, with gpuMatrixAdd\<close>

definition gpuMatrixAdd :: "precision \<Rightarrow> u32 \<Rightarrow> u32 \<Rightarrow> dim3 \<Rightarrow> dim3 \<Rightarrow> call list" where
  "gpuMatrixAdd p matrixDimX matrixDimY gridDim blockDim' =
     (let size' = matrix_size (sizeof_REAL p) matrixDimX matrixDimY in
      [CudaMalloc Dev_a size', CudaMalloc Dev_b size', CudaMalloc Dev_c size',
       CudaMemcpy Dev_a Host_a size' HostToDevice,
       CudaMemcpy Dev_b Host_b size' HostToDevice,
       Launch MatrixAdd gridDim blockDim' [matrixDimX, matrixDimY],
       CudaMemcpy Host_c Dev_c size' DeviceToHost,
       CudaFree Dev_a, CudaFree Dev_b, CudaFree Dev_c])"

definition check_matrix_add :: "u32 \<Rightarrow> u32 \<Rightarrow> u32 \<Rightarrow> error option" where
  "check_matrix_add matrixDimX matrixDimY blockSize =
     (if matrixDimX < 1 then Some (ExpectedGE1 ''matrixDimX'' matrixDimX)
      else if matrixDimY < 1 then Some (ExpectedGE1 ''matrixDimY'' matrixDimY)
      else if blockSize < 1 then Some (ExpectedGE1 ''blockSize'' blockSize)
      else None)"

fun main_matrix_add :: "precision \<Rightarrow> (call \<Rightarrow> bool) \<Rightarrow> bool \<Rightarrow> u32 list \<Rightarrow> outcome \<times> device" where
  "main_matrix_add p ok correct (matrixDimX # matrixDimY # blockSize # rest) =
     (case check_matrix_add matrixDimX matrixDimY blockSize of Some e \<Rightarrow> (Exit e, start)
      | None \<Rightarrow>
     (case grid_settings_add matrixDimX matrixDimY blockSize of
        None \<Rightarrow> (Exit DivisionByZero, start)
      | Some (gridDim, blockDim') \<Rightarrow>
        (let size' = matrix_size (sizeof_REAL p) matrixDimX matrixDimY in
         finish (run ok
           ([CudaGetDeviceProperties,
             Malloc Host_a size', Malloc Host_b size', Malloc Host_c size',
             Random Host_a, Random Host_b]
            @ gpuMatrixAdd p matrixDimX matrixDimY gridDim blockDim'
            @ [Malloc Host_expected size', Reference, Report correct,
               Free Host_a, Free Host_b, Free Host_c, Free Host_expected])
           start))))"
| "main_matrix_add p ok correct args = (Exit Usage, start)"

subsection \<open>matrix\_add\_nxm\_float.cu, the older variant\<close>

text \<open>The same checks as in the other variant; the device calls are in \<open>main\<close> itself.\<close>

fun main_matrix_add_old :: "precision \<Rightarrow> (call \<Rightarrow> bool) \<Rightarrow> bool \<Rightarrow> u32 list \<Rightarrow> outcome \<times> device" where
  "main_matrix_add_old p ok correct (matrixDimX # matrixDimY # blockSize # rest) =
     (case check_matrix_add matrixDimX matrixDimY blockSize of Some e \<Rightarrow> (Exit e, start)
      | None \<Rightarrow>
     (case grid_settings_add matrixDimX matrixDimY blockSize of
        None \<Rightarrow> (Exit DivisionByZero, start)
      | Some (gridDim, blockDim') \<Rightarrow>
        (let size' = matrix_size (sizeof_REAL p) matrixDimX matrixDimY in
         finish (run ok
           [CudaGetDeviceProperties,
            Malloc Host_a size', Malloc Host_b size', Malloc Host_c size',
            CudaMalloc Dev_a size', CudaMalloc Dev_b size', CudaMalloc Dev_c size',
            Random Host_a, Random Host_b,
            CudaMemcpy Dev_a Host_a size' HostToDevice,
            CudaMemcpy Dev_b Host_b size' HostToDevice,
            Launch Add_matrix gridDim blockDim' [matrixDimX, matrixDimY],
            CudaMemcpy Host_c Dev_c size' DeviceToHost,
            Malloc Host_expected size', Reference, Report correct,
            Free Host_a, Free Host_b, Free Host_c, Free Host_expected,
            CudaFree Dev_a, CudaFree Dev_b, CudaFree Dev_c]
           start))))"
| "main_matrix_add_old p ok correct args = (Exit Usage, start)"

subsection \<open>addvec\_threads.cu\<close>

text \<open>
  No arguments; \<^verbatim>\<open>int size = N * sizeof(int);\<close> and the launch \<^verbatim>\<open>add<<< 1, N >>>\<close>.
  \<open>Report\<close> stands for the comparison loop, which prints at the first difference.
\<close>

definition size_threads :: u32 where
  "size_threads = vector_size sizeof_int N"

definition main_threads :: "(call \<Rightarrow> bool) \<Rightarrow> bool \<Rightarrow> outcome \<times> device" where
  "main_threads ok correct =
     finish (run ok
       [CudaMalloc Dev_a size_threads, CudaMalloc Dev_b size_threads, CudaMalloc Dev_c size_threads,
        Malloc Host_a size_threads, Malloc Host_b size_threads, Malloc Host_c size_threads,
        Random Host_a, Random Host_b,
        CudaMemcpy Dev_a Host_a size_threads HostToDevice,
        CudaMemcpy Dev_b Host_b size_threads HostToDevice,
        Launch Add_threads (dim3_1 1) (dim3_1 N) [],
        CudaMemcpy Host_c Dev_c size_threads DeviceToHost,
        Report correct,
        Free Host_a, Free Host_b, Free Host_c,
        CudaFree Dev_a, CudaFree Dev_b, CudaFree Dev_c]
       start)"

subsection \<open>Reading a trace\<close>

text \<open>
  The calls that move data between host and device or run a kernel, and the byte count
  of a call that allocates or copies.
\<close>

fun moves :: "call \<Rightarrow> bool" where
  "moves (CudaMemcpy dst src n k) = True"
| "moves (CudaMemcpyAsync dst src n k) = True"
| "moves (Launch f g b args) = True"
| "moves c = False"

fun byte_count :: "call \<Rightarrow> u32 option" where
  "byte_count (CudaMallocHost h n) = Some n"
| "byte_count (Malloc h n) = Some n"
| "byte_count (CudaMalloc h n) = Some n"
| "byte_count (CudaMemcpy dst src n k) = Some n"
| "byte_count (CudaMemcpyAsync dst src n k) = Some n"
| "byte_count c = None"

text \<open>
  The ordering contract on a sequence of calls: no upload once the kernel is launched,
  no download before it is, at most one launch. \<open>launched\<close> tells whether the launch
  has been seen.
\<close>

fun ordered :: "bool \<Rightarrow> call list \<Rightarrow> bool" where
  "ordered launched [] = True"
| "ordered launched (CudaMemcpy dst src n HostToDevice # cs) = (\<not> launched \<and> ordered launched cs)"
| "ordered launched (CudaMemcpyAsync dst src n HostToDevice # cs) = (\<not> launched \<and> ordered launched cs)"
| "ordered launched (Launch f g b args # cs) = (\<not> launched \<and> ordered True cs)"
| "ordered launched (CudaMemcpy dst src n DeviceToHost # cs) = (launched \<and> ordered launched cs)"
| "ordered launched (CudaMemcpyAsync dst src n DeviceToHost # cs) = (launched \<and> ordered launched cs)"
| "ordered launched (c # cs) = ordered launched cs"

section \<open>Verification of floating-point results\<close>

text \<open>
  \<^verbatim>\<open>#define EPSILON (float)1e-5\<close>: the single-precision number nearest to \<open>1e-5\<close>, which
  is \<open>10995116 / 2 ^ 40 = 2748779 / 2 ^ 38\<close>, a little below \<open>1e-5\<close>. The elements and the
  tolerance are read as reals.
\<close>

definition EPSILON :: real where
  "EPSILON = 2748779 / 2 ^ 38"

text \<open>
  Modelled from the spec: the comparisons \<^verbatim>\<open>vector_equals_err_float\<close>,
  \<^verbatim>\<open>vector_equals_err_double\<close>, \<^verbatim>\<open>matrix_equals_err_float\<close> and
  \<^verbatim>\<open>matrix_equals_err_double\<close> of common/vector.h and common/matrix.h are not among
  the sources. The specification: "element \<open>i\<close> passes if
  \<open>|computed[i] - expected[i]| <= tolerance\<close>"; the comparison goes through the
  elements and accepts when each of them passes.
\<close>

fun equals_err :: "real list \<Rightarrow> real list \<Rightarrow> nat \<Rightarrow> real \<Rightarrow> bool" where
  "equals_err computed expected 0 tolerance = True"
| "equals_err computed expected (Suc i) tolerance =
     (equals_err computed expected i tolerance \<and> \<bar>computed ! i - expected ! i\<bar> \<le> tolerance)"

definition vector_equals_err :: "real list \<Rightarrow> real list \<Rightarrow> u32 \<Rightarrow> real \<Rightarrow> bool" where
  "vector_equals_err computed expected vectorDim tolerance =
     equals_err computed expected (unat vectorDim) tolerance"

definition matrix_equals_err :: "real list \<Rightarrow> real list \<Rightarrow> u32 \<Rightarrow> u32 \<Rightarrow> real \<Rightarrow> bool" where
  "matrix_equals_err computed expected matrixDimX matrixDimY tolerance =
     equals_err computed expected (unat matrixDimX * unat matrixDimY) tolerance"

text \<open>
  The test of the result in each \<open>main\<close>. vector\_sum\_float\_opt.cu and the variant of
  matrix\_add\_nxm\_float.cu with gpuMatrixAdd pass \<open>EPSILON\<close>. The older variant calls
  \<^verbatim>\<open>matrix_equals_float\<close> or \<^verbatim>\<open>matrix_equals_double\<close>, which are not among the sources
  either and are a parameter here; the call passes the two arrays and the dimensions.
\<close>

definition test_result_vector_sum :: "real list \<Rightarrow> real list \<Rightarrow> u32 \<Rightarrow> bool" where
  "test_result_vector_sum c expected vectorDim = vector_equals_err c expected vectorDim EPSILON"

definition test_result_matrix_add :: "real list \<Rightarrow> real list \<Rightarrow> u32 \<Rightarrow> u32 \<Rightarrow> bool" where
  "test_result_matrix_add c expected matrixDimX matrixDimY =
     matrix_equals_err c expected matrixDimX matrixDimY EPSILON"

definition test_result_matrix_add_old ::
    "(real list \<Rightarrow> real list \<Rightarrow> u32 \<Rightarrow> u32 \<Rightarrow> bool) \<Rightarrow> real list \<Rightarrow> real list \<Rightarrow> u32 \<Rightarrow> u32 \<Rightarrow> bool" where
  "test_result_matrix_add_old matrix_equals c expected matrixDimX matrixDimY =
     matrix_equals c expected matrixDimX matrixDimY"

section \<open>Word arithmetic\<close>

lemma unat_bound: "unat (w::u32) < 2 ^ 32"
  using unsigned_less [of w, where 'a = nat] by simp

lemma unat_succ_less: "(k::u32) < d \<Longrightarrow> unat (k + 1) = Suc (unat k)"
proof -
  assume "k < d"
  then have "unat k < unat d" by (simp add: word_less_nat_alt)
  moreover have "unat d < 2 ^ 32" by (rule unat_bound)
  ultimately have "unat k + 1 < 2 ^ 32" by simp
  then show ?thesis by (simp add: unat_word_ariths)
qed

lemma unat_mult_nowrap: "unat p * unat q < 2 ^ 32 \<Longrightarrow> unat (p * q :: u32) = unat p * unat q"
  using unat_mult_lem [of p q] by simp

lemma unat_add_nowrap: "unat p + unat q < 2 ^ 32 \<Longrightarrow> unat (p + q :: u32) = unat p + unat q"
  using unat_add_lem [of p q] by simp

section \<open>Runs of a program\<close>

lemma run_all_ok:
  "(\<And>c. ok c) \<Longrightarrow> run ok cs d = (None, foldl (\<lambda>d c. effect c d) d cs)"
  by (induction cs arbitrary: d) simp_all

lemma trace_run: "\<exists>n. trace (snd (run ok cs d)) = trace d @ take n cs"
proof (induction cs arbitrary: d)
  case Nil
  show ?case by simp
next
  case (Cons c cs)
  show ?case
  proof (cases "checked c \<and> \<not> ok c")
    case True
    then have "trace (snd (run ok (c # cs) d)) = trace d @ take 0 (c # cs)" by simp
    then show ?thesis ..
  next
    case False
    from Cons.IH [of "effect c d"] obtain n
      where "trace (snd (run ok cs (effect c d))) = trace (effect c d) @ take n cs" ..
    with False have "trace (snd (run ok (c # cs) d)) = trace d @ take (Suc n) (c # cs)"
      by (simp add: effect_def)
    then show ?thesis ..
  qed
qed

lemma ordered_take: "ordered launched cs \<Longrightarrow> ordered launched (take n cs)"
proof (induction cs arbitrary: launched n)
  case Nil
  show ?case by simp
next
  case (Cons c cs)
  show ?case
  proof (cases n)
    case 0
    show ?thesis by (simp add: 0)
  next
    case (Suc m)
    have step: "ordered l cs \<Longrightarrow> ordered l (take m cs)" for l
      by (rule Cons.IH)
    from Cons.prems show ?thesis
      unfolding Suc take_Suc_Cons
      by (cases "(launched, c # cs)" rule: ordered.cases) (auto intro: step)
  qed
qed

section \<open>The matrix product kernel\<close>

lemma matrixMul_loop_sum:
  assumes "\<forall>j. unat k \<le> j \<and> j < unat dimX1 \<longrightarrow>
             unat (iY * dimX1 + of_nat j) < length a \<and> unat (of_nat j * dimX2 + iX) < length b"
  shows "matrixMul_loop a b dimX1 dimX2 iX iY k val =
           Inr (val + (\<Sum>j = unat k..<unat dimX1.
                  a ! unat (iY * dimX1 + of_nat j) * b ! unat (of_nat j * dimX2 + iX)))"
  using assms
proof (induction a b dimX1 dimX2 iX iY k val rule: matrixMul_loop.induct)
  case (1 a b dimX1 dimX2 iX iY k val)
  show ?case
  proof (cases "k < dimX1")
    case False
    then have "unat dimX1 \<le> unat k" by (simp add: word_less_nat_alt)
    with False show ?thesis by (subst matrixMul_loop.simps) simp
  next
    case True
    then have lt: "unat k < unat dimX1" by (simp add: word_less_nat_alt)
    have suc: "unat (k + 1) = Suc (unat k)" using True by (rule unat_succ_less)
    from "1.prems" lt
    have ia: "unat (iY * dimX1 + k) < length a" and ib: "unat (k * dimX2 + iX) < length b"
      by (auto dest: spec [of _ "unat k"])
    have la: "load a (iY * dimX1 + k) = Inr (a ! unat (iY * dimX1 + k))"
      using ia by (simp add: load_def)
    have lb: "load b (k * dimX2 + iX) = Inr (b ! unat (k * dimX2 + iX))"
      using ib by (simp add: load_def)
    have rest: "\<forall>j. unat (k + 1) \<le> j \<and> j < unat dimX1 \<longrightarrow>
             unat (iY * dimX1 + of_nat j) < length a \<and> unat (of_nat j * dimX2 + iX) < length b"
      using "1.prems" suc by auto
    have "matrixMul_loop a b dimX1 dimX2 iX iY k val =
            matrixMul_loop a b dimX1 dimX2 iX iY (k + 1)
              (val + a ! unat (iY * dimX1 + k) * b ! unat (k * dimX2 + iX))"
      using True la lb by (subst matrixMul_loop.simps) simp
    also have "\<dots> = Inr (val + a ! unat (iY * dimX1 + k) * b ! unat (k * dimX2 + iX) +
         (\<Sum>j = unat (k + 1)..<unat dimX1.
                  a ! unat (iY * dimX1 + of_nat j) * b ! unat (of_nat j * dimX2 + iX)))"
      using "1.IH" [OF True la lb rest] .
    also have "\<dots> = Inr (val + (\<Sum>j = unat k..<unat dimX1.
                  a ! unat (iY * dimX1 + of_nat j) * b ! unat (of_nat j * dimX2 + iX)))"
      using lt by (simp add: suc sum.atLeast_Suc_lessThan add.assoc)
    finally show ?thesis .
  qed
qed

lemma unat_affine_le: "unat ((p::u32) * q + r) \<le> unat p * unat q + unat r"
proof -
  have "unat (p * q + r) = (unat (p * q) + unat r) mod 2 ^ 32"
    by (simp add: unat_word_ariths)
  also have "\<dots> \<le> unat (p * q) + unat r" by simp
  also have "unat (p * q) \<le> unat p * unat q" by (simp add: unat_word_ariths)
  finally show ?thesis by simp
qed

lemma row_major_bound: "(i::nat) < rows \<Longrightarrow> j < cols \<Longrightarrow> i * cols + j < cols * rows"
proof -
  assume "i < rows" "j < cols"
  then have "i * cols + j < Suc i * cols" by simp
  also have "\<dots> \<le> rows * cols" using \<open>i < rows\<close> by (intro mult_le_mono1) simp
  finally show ?thesis by (simp add: mult.commute)
qed

lemma row_major_in_bounds:
  assumes "(i::u32) < rows" "j < cols"
  shows "unat (i * cols + j) < unat cols * unat rows"
proof -
  have "unat (i * cols + j) \<le> unat i * unat cols + unat j" by (rule unat_affine_le)
  also have "\<dots> < unat cols * unat rows"
    using assms by (intro row_major_bound) (simp_all add: word_less_nat_alt)
  finally show ?thesis .
qed

lemma row_major_index_exact:
  assumes "(i::u32) < rows" "j < cols" "unat cols * unat rows \<le> 2 ^ 32"
  shows "unat (i * cols + j) = unat i * unat cols + unat j"
proof -
  have "unat i * unat cols + unat j < unat cols * unat rows"
    using assms(1,2) by (intro row_major_bound) (simp_all add: word_less_nat_alt)
  with assms(3) have sum: "unat i * unat cols + unat j < 2 ^ 32"
    by linarith
  then have "unat i * unat cols < 2 ^ 32"
    by linarith
  then have m: "unat (i * cols) = unat i * unat cols"
    by (rule unat_mult_nowrap)
  have "unat (i * cols) + unat j < 2 ^ 32"
    unfolding m using sum .
  then have "unat (i * cols + j) = unat (i * cols) + unat j"
    by (rule unat_add_nowrap)
  then show ?thesis
    unfolding m .
qed

lemma int_sum_truncated:
  "(\<Sum>k = 0..<n. f k * g k :: i32) = word_of_int (\<Sum>k = 0..<n. sint (f k) * sint (g k))"
  by (simp add: of_int_sum)

lemma matrixMul_unit_inside:
  assumes a: "length a = unat dimX1 * unat dimY1"
    and b: "length b = unat dimX2 * unat dimY2"
    and inner: "dimY2 = dimX1"
    and c: "length c = unat dimX2 * unat dimY1"
    and iX: "coord_x t < dimX2"
    and iY: "coord_y t < dimY1"
  shows "unat (coord_y t * dimX2 + coord_x t) < length c \<and>
         matrixMul t a b c dimX1 dimY1 dimX2 =
           Inr (c[unat (coord_y t * dimX2 + coord_x t) :=
                    (\<Sum>k = 0..<unat dimX1.
                        a ! unat (coord_y t * dimX1 + of_nat k) *
                        b ! unat (of_nat k * dimX2 + coord_x t))])"
proof -
  have pos: "unat (coord_y t * dimX2 + coord_x t) < length c"
    using row_major_in_bounds [OF iY iX] c by simp
  have reads: "\<forall>j. unat (0::u32) \<le> j \<and> j < unat dimX1 \<longrightarrow>
             unat (coord_y t * dimX1 + of_nat j) < length a \<and>
             unat (of_nat j * dimX2 + coord_x t) < length b"
  proof (intro allI impI)
    fix j assume "unat (0::u32) \<le> j \<and> j < unat dimX1"
    then have j: "j < unat dimX1" by simp
    then have "j < 2 ^ 32" using unat_bound [of dimX1] by simp
    then have uj: "unat (of_nat j :: u32) = j" by (simp add: unat_of_nat)
    with j have lt: "(of_nat j :: u32) < dimX1" by (simp add: word_less_nat_alt)
    have "unat (coord_y t * dimX1 + of_nat j) < length a"
      using row_major_in_bounds [OF iY lt] a by simp
    moreover have "unat (of_nat j * dimX2 + coord_x t) < length b"
      using row_major_in_bounds [OF lt iX] b inner by simp
    ultimately show "unat (coord_y t * dimX1 + of_nat j) < length a \<and>
             unat (of_nat j * dimX2 + coord_x t) < length b" ..
  qed
  have loop: "matrixMul_loop a b dimX1 dimX2 (coord_x t) (coord_y t) 0 0 =
      Inr (\<Sum>k = 0..<unat dimX1.
                        a ! unat (coord_y t * dimX1 + of_nat k) *
                        b ! unat (of_nat k * dimX2 + coord_x t))"
    using matrixMul_loop_sum [OF reads, of 0] by simp
  have inside: "\<not> (dimX2 \<le> coord_x t \<or> dimY1 \<le> coord_y t)"
    using iX iY by (simp add: not_le)
  have "matrixMul t a b c dimX1 dimY1 dimX2 =
           Inr (c[unat (coord_y t * dimX2 + coord_x t) :=
                    (\<Sum>k = 0..<unat dimX1.
                        a ! unat (coord_y t * dimX1 + of_nat k) *
                        b ! unat (of_nat k * dimX2 + coord_x t))])"
    using inside loop pos
    by (simp add: matrixMul_def Let_def store_def coord_x_def [symmetric] coord_y_def [symmetric])
  with pos show ?thesis ..
qed

text \<open>
  Claim C1. With \<open>a\<close> of shape \<open>dimX1 \<times> dimY1\<close>, \<open>b\<close> of shape \<open>dimX2 \<times> dimY2\<close>,
  \<open>dimY2 = dimX1\<close> and \<open>c\<close> of the shape of the product, a unit of \<open>matrixMul\<close> whose
  coordinate \<open>(iX, iY)\<close> has \<open>iX < dimX2\<close> and \<open>iY < dimY1\<close> returns the buffer \<open>c\<close>
  changed at the one position \<open>iY * dimX2 + iX\<close>, inside \<open>c\<close>, where it holds the sum over
  \<open>k\<close> from \<open>0\<close> to \<open>dimX1 - 1\<close> of \<open>a[iY * dimX1 + k] * b[k * dimX2 + iX]\<close>. Every
  other element of \<open>c\<close> is as before. The indices are the kernel's \<^verbatim>\<open>unsigned int\<close>
  expressions, which are the row-major positions for matrices of up to \<open>2 ^ 32\<close>
  elements (\<open>row_major_index_exact\<close>); the sum is the kernel's \<^verbatim>\<open>int\<close> arithmetic, the
  sum of the integer products reduced to 32 bits (\<open>int_sum_truncated\<close>).
\<close>

theorem matrixMul_unit_writes_product:
  assumes a: "length a = unat dimX1 * unat dimY1"
    and b: "length b = unat dimX2 * unat dimY2"
    and inner: "dimY2 = dimX1"
    and c: "length c = unat dimX2 * unat dimY1"
    and iX: "coord_x t < dimX2"
    and iY: "coord_y t < dimY1"
  shows "unat (coord_y t * dimX2 + coord_x t) < length c \<and>
         matrixMul t a b c dimX1 dimY1 dimX2 =
           Inr (c[unat (coord_y t * dimX2 + coord_x t) :=
                    (\<Sum>k = 0..<unat dimX1.
                        a ! unat (coord_y t * dimX1 + of_nat k) *
                        b ! unat (of_nat k * dimX2 + coord_x t))])"
  using assms by (rule matrixMul_unit_inside)

theorem matrixMul_unit_writes_product_witness:
  "matrixMul \<lparr>blockIdx = \<lparr>dim_x = 0, dim_y = 0, dim_z = 0\<rparr>,
              blockDim = \<lparr>dim_x = 2, dim_y = 2, dim_z = 1\<rparr>,
              threadIdx = \<lparr>dim_x = 1, dim_y = 0, dim_z = 0\<rparr>\<rparr>
     [1, 0, 0, 1] [5, 6, 7, 8] [0, 0, 0, 0] 2 2 2 = Inr [0, 6, 0, 0]"
proof -
  have range: "{0..<2::nat} = {0, 1}"
    by auto
  show ?thesis
    using matrixMul_unit_writes_product
      [of "[1, 0, 0, 1]" 2 2 "[5, 6, 7, 8]" 2 2 "[0, 0, 0, 0]"
          "\<lparr>blockIdx = \<lparr>dim_x = 0, dim_y = 0, dim_z = 0\<rparr>,
            blockDim = \<lparr>dim_x = 2, dim_y = 2, dim_z = 1\<rparr>,
            threadIdx = \<lparr>dim_x = 1, dim_y = 0, dim_z = 0\<rparr>\<rparr>"]
    by (simp add: coord_x_def coord_y_def range)
qed

section \<open>The boundary check\<close>

lemma vectorAdd_outside:
  "dim' \<le> coord_x t \<Longrightarrow> vectorAdd t a b c dim' = Inr c"
  by (simp add: vectorAdd_def coord_x_def)

lemma matrixAdd_outside:
  "dimX \<le> coord_x t \<or> dimY \<le> coord_y t \<Longrightarrow> matrixAdd t a b c dimX dimY = Inr c"
  by (auto simp: matrixAdd_def coord_x_def coord_y_def Let_def)

lemma add_matrix_outside:
  "dimX \<le> coord_x t \<or> dimY \<le> coord_y t \<Longrightarrow> add_matrix t a b c dimX dimY = Inr c"
  by (auto simp: add_matrix_def coord_x_def coord_y_def Let_def)

lemma matrixMul_outside:
  "dimX2 \<le> coord_x t \<or> dimY1 \<le> coord_y t \<Longrightarrow> matrixMul t a b c dimX1 dimY1 dimX2 = Inr c"
  by (auto simp: matrixMul_def coord_x_def coord_y_def Let_def)

lemma threads_launch_inside:
  "unit_of (dim3_1 1) (dim3_1 N) t \<Longrightarrow> dim_x (threadIdx t) < N"
  by (simp add: unit_of_def below_def dim3_1_def)

lemma trace_finish_run_subset: "set (trace (snd (finish (run ok cs start)))) \<subseteq> set cs"
proof -
  obtain n where "trace (snd (run ok cs start)) = trace start @ take n cs"
    using trace_run by blast
  then have "trace (snd (finish (run ok cs start))) = take n cs"
    by (simp add: finish_def start_def split: option.splits)
  then show ?thesis
    by (simp add: set_take_subset)
qed

lemma threads_launch_only:
  assumes "Launch f gridDim blockDim' args \<in> set (trace (snd (main_threads ok correct)))"
  shows "f = Add_threads \<and> gridDim = dim3_1 1 \<and> blockDim' = dim3_1 N"
proof -
  have "Launch f gridDim blockDim' args \<in> set
       [CudaMalloc Dev_a size_threads, CudaMalloc Dev_b size_threads, CudaMalloc Dev_c size_threads,
        Malloc Host_a size_threads, Malloc Host_b size_threads, Malloc Host_c size_threads,
        Random Host_a, Random Host_b,
        CudaMemcpy Dev_a Host_a size_threads HostToDevice,
        CudaMemcpy Dev_b Host_b size_threads HostToDevice,
        Launch Add_threads (dim3_1 1) (dim3_1 N) [],
        CudaMemcpy Host_c Dev_c size_threads DeviceToHost,
        Report correct,
        Free Host_a, Free Host_b, Free Host_c,
        CudaFree Dev_a, CudaFree Dev_b, CudaFree Dev_c]"
    using assms trace_finish_run_subset unfolding main_threads_def by blast
  then show ?thesis
    by simp
qed

lemma threads_units_inside:
  assumes "Launch f gridDim blockDim' args \<in> set (trace (snd (main_threads ok correct))) \<and>
           unit_of gridDim blockDim' t"
  shows "f = Add_threads \<and> dim_x (threadIdx t) < N"
  using assms threads_launch_only [of f gridDim blockDim' args ok correct]
  by (auto intro: threads_launch_inside)

text \<open>
  Claim C2. A unit of \<open>vectorAdd\<close>, of \<open>matrixAdd\<close>, of the older \<open>add\<close> of
  matrix\_add\_nxm\_float.cu or of \<open>matrixMul\<close> whose computed coordinate is outside the
  problem extent returns the output buffer as it was: it writes nothing, whatever the
  geometry of the launch. The kernel \<open>add\<close> of addvec\_threads.cu is launched once, as
  \<^verbatim>\<open>add<<< 1, N >>>\<close>: every launch in a run of that program is this one, its units are
  \<open>0\<close>, ..., \<open>N - 1\<close>, and none of them is outside the extent \<open>N\<close>. So in no dispatch of
  any of the programs does a unit write at a coordinate outside the extent.
\<close>

theorem boundary_check_guarded_kernels:
  "(dim' \<le> coord_x t \<longrightarrow> vectorAdd t a b c dim' = Inr c) \<and>
   (dimX \<le> coord_x t \<or> dimY \<le> coord_y t \<longrightarrow>
      matrixAdd t a b c dimX dimY = Inr c \<and> add_matrix t a b c dimX dimY = Inr c) \<and>
   (dimX2 \<le> coord_x t \<or> dimY1 \<le> coord_y t \<longrightarrow> matrixMul t ia ib ic dimX1 dimY1 dimX2 = Inr ic) \<and>
   (unit_of (dim3_1 1) (dim3_1 N) t \<longrightarrow> dim_x (threadIdx t) < N) \<and>
   (Launch f gridDim blockDim' args \<in> set (trace (snd (main_threads ok correct))) \<and>
      unit_of gridDim blockDim' t \<longrightarrow> f = Add_threads \<and> dim_x (threadIdx t) < N)"
proof -
  have guarded:
    "(dim' \<le> coord_x t \<longrightarrow> vectorAdd t a b c dim' = Inr c) \<and>
     (dimX \<le> coord_x t \<or> dimY \<le> coord_y t \<longrightarrow>
        matrixAdd t a b c dimX dimY = Inr c \<and> add_matrix t a b c dimX dimY = Inr c) \<and>
     (dimX2 \<le> coord_x t \<or> dimY1 \<le> coord_y t \<longrightarrow> matrixMul t ia ib ic dimX1 dimY1 dimX2 = Inr ic) \<and>
     (unit_of (dim3_1 1) (dim3_1 N) t \<longrightarrow> dim_x (threadIdx t) < N)"
    by (intro conjI impI vectorAdd_outside matrixAdd_outside add_matrix_outside
        matrixMul_outside threads_launch_inside)
  have launched:
    "Launch f gridDim blockDim' args \<in> set (trace (snd (main_threads ok correct))) \<and>
       unit_of gridDim blockDim' t \<longrightarrow> f = Add_threads \<and> dim_x (threadIdx t) < N"
    by (rule impI) (rule threads_units_inside)
  from guarded launched show ?thesis
    by (elim conjE, intro conjI) assumption+
qed

theorem boundary_check_guarded_kernels_witness:
  "vectorAdd \<lparr>blockIdx = \<lparr>dim_x = 0, dim_y = 0, dim_z = 0\<rparr>,
              blockDim = dim3_1 N,
              threadIdx = \<lparr>dim_x = 5, dim_y = 0, dim_z = 0\<rparr>\<rparr>
     [1, 2, 3, 4] [5, 6, 7, 8] [0, 0, 0, 0 :: i32] 4 = Inr [0, 0, 0, 0] \<and>
   matrixAdd \<lparr>blockIdx = \<lparr>dim_x = 0, dim_y = 0, dim_z = 0\<rparr>,
              blockDim = dim3_1 N,
              threadIdx = \<lparr>dim_x = 5, dim_y = 0, dim_z = 0\<rparr>\<rparr>
     [1, 2, 3, 4] [5, 6, 7, 8] [0, 0, 0, 0 :: i32] 4 1 = Inr [0, 0, 0, 0] \<and>
   add_matrix \<lparr>blockIdx = \<lparr>dim_x = 0, dim_y = 0, dim_z = 0\<rparr>,
              blockDim = dim3_1 N,
              threadIdx = \<lparr>dim_x = 5, dim_y = 0, dim_z = 0\<rparr>\<rparr>
     [1, 2, 3, 4] [5, 6, 7, 8] [0, 0, 0, 0 :: i32] 4 1 = Inr [0, 0, 0, 0] \<and>
   matrixMul \<lparr>blockIdx = \<lparr>dim_x = 0, dim_y = 0, dim_z = 0\<rparr>,
              blockDim = dim3_1 N,
              threadIdx = \<lparr>dim_x = 5, dim_y = 0, dim_z = 0\<rparr>\<rparr>
     [1, 2, 3, 4] [5, 6, 7, 8] [0, 0, 0, 0] 1 1 4 = Inr [0, 0, 0, 0] \<and>
   Launch Add_threads (dim3_1 1) (dim3_1 N) []
     \<in> set (trace (snd (main_threads (\<lambda>c. True) True))) \<and>
   (5 :: u32) < N"
proof -
  have launched: "Launch Add_threads (dim3_1 1) (dim3_1 N) []
     \<in> set (trace (snd (main_threads (\<lambda>c. True) True)))"
    by (simp add: main_threads_def run_all_ok start_def finish_def effect_def)
  show ?thesis
    using boundary_check_guarded_kernels
      [of 4 "\<lparr>blockIdx = \<lparr>dim_x = 0, dim_y = 0, dim_z = 0\<rparr>,
              blockDim = dim3_1 N,
              threadIdx = \<lparr>dim_x = 5, dim_y = 0, dim_z = 0\<rparr>\<rparr>"
        "[1, 2, 3, 4]" "[5, 6, 7, 8]" "[0, 0, 0, 0 :: i32]" 4 1 4 1
        "[1, 2, 3, 4]" "[5, 6, 7, 8]" "[0, 0, 0, 0]" 1
        Add_threads "dim3_1 1" "dim3_1 N" "[]" "\<lambda>c. True" True] launched
    by (simp add: coord_x_def coord_y_def unit_of_def below_def dim3_1_def N_def)
qed

section \<open>Grid settings: ceiling division\<close>

lemma div_offset: "a < (G::nat) \<Longrightarrow> (a + q * G) div G = q"
  by simp

lemma ceiling_div_cases:
  assumes "0 < (G::nat)"
  shows "(E + G - 1) div G = (if E div G * G < E then E div G + 1 else E div G)"
proof -
  define q r where "q = E div G" and "r = E mod G"
  have E: "E = q * G + r" and r: "r < G"
    using assms by (simp_all add: q_def r_def)
  have "E div G * G + r = E"
    by (simp add: r_def)
  then have test: "E div G * G < E \<longleftrightarrow> r \<noteq> 0"
    by linarith
  show ?thesis
  proof (cases "r = 0")
    case True
    then have eq: "E + G - 1 = (G - 1) + q * G" using assms E by simp
    have "(E + G - 1) div G = q"
      unfolding eq using assms by (intro div_offset) simp
    with True test show ?thesis by (simp add: q_def)
  next
    case False
    then have eq: "E + G - 1 = (r - 1) + (q + 1) * G" using E by simp
    have "(E + G - 1) div G = q + 1"
      unfolding eq using r by (intro div_offset) simp
    with False test show ?thesis by (simp add: q_def)
  qed
qed


lemma gridSize_matrix_ceiling:
  assumes G: "blockSize \<noteq> 0"
  shows "\<exists>g. gridSize_matrix matrixDim blockSize = Some g \<and>
             unat g = (unat matrixDim + unat blockSize - 1) div unat blockSize"
proof -
  let ?E = "unat matrixDim" and ?G = "unat blockSize"
  let ?q = "matrixDim div blockSize"
  have Gpos: "0 < ?G" using G by (simp add: unat_gt_0)
  have q: "unat ?q = ?E div ?G" by (simp add: unat_div)
  have qG_le: "?E div ?G * ?G \<le> ?E" by simp
  have E_bound: "?E < 2 ^ 32" by (rule unat_bound)
  have "unat ?q * ?G \<le> ?E"
    unfolding q by simp
  then have "unat ?q * ?G < 2 ^ 32"
    using E_bound by (rule le_less_trans)
  then have prod: "unat (?q * blockSize) = ?E div ?G * ?G"
    by (simp only: unat_mult_nowrap q)
  note ceil = ceiling_div_cases [OF Gpos, of ?E]
  show ?thesis
  proof (cases "?q * blockSize < matrixDim")
    case True
    then have lt: "?E div ?G * ?G < ?E" by (simp add: word_less_nat_alt prod)
    have "?E div ?G * 1 \<le> ?E div ?G * ?G"
      using Gpos by (intro mult_le_mono2) simp
    then have "?E div ?G \<le> ?E div ?G * ?G"
      by (simp only: mult_1_right)
    then have "?E div ?G < ?E"
      using lt by (rule le_less_trans)
    with E_bound have "?E div ?G + 1 < 2 ^ 32" by linarith
    then have "unat ?q + unat (1::u32) < 2 ^ 32" by (simp add: q)
    then have "unat (?q + 1) = ?E div ?G + 1"
      by (simp add: unat_add_nowrap q)
    then have "unat (?q + 1) = (?E + ?G - 1) div ?G"
      unfolding ceil using lt by simp
    moreover have "gridSize_matrix matrixDim blockSize = Some (?q + 1)"
      using True G by (simp add: gridSize_matrix_def udiv_def)
    ultimately show ?thesis by simp
  next
    case False
    then have "\<not> ?E div ?G * ?G < ?E" by (simp add: word_less_nat_alt prod)
    then have "unat ?q = (?E + ?G - 1) div ?G"
      unfolding ceil by (simp add: q)
    moreover have "gridSize_matrix matrixDim blockSize = Some ?q"
      using False G by (simp add: gridSize_matrix_def udiv_def)
    ultimately show ?thesis by simp
  qed
qed

lemma gridSize_vector_ceiling:
  assumes G: "blockSize \<noteq> 0" and fits: "unat vectorDim + unat blockSize - 1 < 2 ^ 32"
  shows "\<exists>g. gridSize_vector vectorDim blockSize = Some g \<and>
             unat g = (unat vectorDim + unat blockSize - 1) div unat blockSize"
proof -
  have Gpos: "1 \<le> unat blockSize" using G by (simp add: unat_gt_0 Suc_leI)
  have w: "vectorDim + (blockSize - 1) = vectorDim + blockSize - 1"
    by (rule add_diff_eq)
  have sub: "unat (blockSize - 1) = unat blockSize - 1"
    using Gpos by (simp add: unat_sub word_le_nat_alt)
  have n: "unat vectorDim + (unat blockSize - 1) = unat vectorDim + unat blockSize - 1"
    using Gpos by simp
  have "unat vectorDim + unat (blockSize - 1) < 2 ^ 32"
    unfolding sub n using fits .
  then have "unat (vectorDim + (blockSize - 1)) = unat vectorDim + unat (blockSize - 1)"
    by (rule unat_add_nowrap)
  then have "unat (vectorDim + blockSize - 1) = unat vectorDim + unat blockSize - 1"
    unfolding w sub n .
  then show ?thesis
    using G by (simp add: gridSize_vector_def udiv_def unat_div)
qed

lemma ceiling_covers_minimal:
  assumes "0 < (G::nat)" "0 < E"
  shows "E \<le> (E + G - 1) div G * G \<and> ((E + G - 1) div G - 1) * G < E"
proof -
  have low: "E div G * G \<le> E" by simp
  have high: "E < (E div G + 1) * G"
    using assms(1) by (metis Suc_eq_plus1 dividend_less_div_times mult.commute mult_Suc)
  show ?thesis
  proof (cases "E div G * G < E")
    case True
    then have c: "(E + G - 1) div G = E div G + 1"
      by (simp only: ceiling_div_cases [OF assms(1)] if_True)
    show ?thesis
      unfolding c using high True by simp
  next
    case False
    then have c: "(E + G - 1) div G = E div G"
      by (simp only: ceiling_div_cases [OF assms(1)] if_False)
    from False low have eq: "E div G * G = E" by simp
    with assms have "0 < E div G" by (metis gr0I mult_0 less_numeral_extra(3))
    then have "(E div G - 1) * G < E div G * G" using assms(1) by simp
    with eq show ?thesis
      unfolding c by simp
  qed
qed


section \<open>The grid of the matrix product covers the output\<close>

lemma unat_two_power: 
  assumes "k < 32" shows "unat (2 ^ k :: u32) = 2 ^ k"
proof -
  have "(2 ^ k :: u32) = of_nat (2 ^ k)" by simp
  then have "unat (2 ^ k :: u32) = (2 ^ k) mod 2 ^ 32"
    by (simp only: unat_of_nat) simp
  moreover have "(2::nat) ^ k < 2 ^ 32"
    using assms by (intro power_strict_increasing) simp_all
  ultimately show ?thesis by simp
qed

lemma IS_POWER_OF_2_D: "IS_POWER_OF_2 v \<Longrightarrow> \<exists>k<32. v = 2 ^ k"
  by (auto simp: IS_POWER_OF_2_def)

lemma pow2_ceiling_fits:
  assumes "k \<le> 32" "(g - 1) * 2 ^ k < (2::nat) ^ 32"
  shows "g * 2 ^ k \<le> (2::nat) ^ 32"
proof -
  have split: "2 ^ (32 - k) * 2 ^ k = (2::nat) ^ 32"
    using assms(1) by (simp add: power_add [symmetric])
  with assms(2) have "(g - 1) * 2 ^ k < 2 ^ (32 - k) * (2::nat) ^ k"
    by simp
  then have "g - 1 < 2 ^ (32 - k)"
    by (rule mult_right_less_imp_less) simp
  then have "g \<le> 2 ^ (32 - k)"
    by simp
  then have "g * 2 ^ k \<le> 2 ^ (32 - k) * 2 ^ k"
    by (rule mult_le_mono1)
  with split show ?thesis by simp
qed

lemma axis_unique:
  assumes fits: "unat g * unat G \<le> 2 ^ 32"
    and bx: "bx < g" and tx: "tx < G" and i: "bx * G + tx = (i::u32)"
  shows "bx = i div G \<and> tx = i mod G"
proof -
  let ?b = "unat bx" and ?t = "unat tx" and ?G = "unat G"
  have t: "?t < ?G" using tx by (simp add: word_less_nat_alt)
  have "?b + 1 \<le> unat g" using bx by (simp add: word_less_nat_alt)
  then have "(?b + 1) * ?G \<le> unat g * ?G" by (rule mult_le_mono1)
  moreover have "?b * ?G + ?t < (?b + 1) * ?G" using t by simp
  ultimately have sum: "?b * ?G + ?t < 2 ^ 32" using fits by linarith
  then have "?b * ?G < 2 ^ 32" by linarith
  then have m: "unat (bx * G) = ?b * ?G" by (rule unat_mult_nowrap)
  have "unat (bx * G) + ?t < 2 ^ 32" unfolding m using sum .
  then have "unat (bx * G + tx) = unat (bx * G) + ?t" by (rule unat_add_nowrap)
  then have ui: "unat i = ?t + ?b * ?G" unfolding m i by simp
  have "unat i div ?G = ?b" unfolding ui using t by (rule div_offset)
  moreover have "unat i mod ?G = ?t" unfolding ui using t by simp
  ultimately show ?thesis
    by (simp add: word_unat_eq_iff unat_div unat_mod)
qed

lemma axis_exists:
  assumes G: "G \<noteq> 0" and i: "unat i < unat g * unat (G::u32)"
  shows "i div G < g \<and> i mod G < G \<and> i div G * G + i mod G = i"
proof -
  have Gpos: "0 < unat G" using G by (simp add: unat_gt_0)
  have "unat i div unat G < unat g"
    using i Gpos by (simp add: less_mult_imp_div_less)
  then have "i div G < g" by (simp add: word_less_nat_alt unat_div)
  moreover have "i mod G < G" using Gpos by (simp add: word_less_nat_alt unat_mod)
  ultimately show ?thesis by (simp add: word_mod_div_equality)
qed

lemma IS_POWER_OF_2_unat: "IS_POWER_OF_2 v \<Longrightarrow> \<exists>k<32. unat v = 2 ^ k"
  using IS_POWER_OF_2_D unat_two_power by blast

lemma IS_POWER_OF_2_nonzero: "IS_POWER_OF_2 v \<Longrightarrow> v \<noteq> 0"
proof
  assume "IS_POWER_OF_2 v" "v = 0"
  then obtain k where "unat (0::u32) = 2 ^ k" using IS_POWER_OF_2_unat by blast
  then show False by simp
qed

lemma grid_axis:
  assumes pow: "IS_POWER_OF_2 blockSize" and E: "matrixDim \<noteq> 0"
  shows "\<exists>g. gridSize_matrix matrixDim blockSize = Some g \<and>
             unat matrixDim \<le> unat g * unat blockSize \<and> unat g * unat blockSize \<le> 2 ^ 32"
proof -
  have G: "blockSize \<noteq> 0" using pow by (rule IS_POWER_OF_2_nonzero)
  then have Gpos: "0 < unat blockSize" by (simp add: unat_gt_0)
  have Epos: "0 < unat matrixDim" using E by (simp add: unat_gt_0)
  obtain g where g: "gridSize_matrix matrixDim blockSize = Some g"
      and ug: "unat g = (unat matrixDim + unat blockSize - 1) div unat blockSize"
    using gridSize_matrix_ceiling [OF G] by blast
  from ceiling_covers_minimal [OF Gpos Epos]
  have cover: "unat matrixDim \<le> unat g * unat blockSize"
    and minimal: "(unat g - 1) * unat blockSize < unat matrixDim"
    unfolding ug by simp_all
  obtain k where k: "k < 32" and uk: "unat blockSize = 2 ^ k"
    using IS_POWER_OF_2_unat [OF pow] by blast
  have "(unat g - 1) * 2 ^ k < (2::nat) ^ 32"
    using minimal unat_bound [of matrixDim] unfolding uk by (rule less_trans)
  then have "unat g * 2 ^ k \<le> (2::nat) ^ 32"
    using k by (intro pow2_ceiling_fits) simp_all
  with g cover show ?thesis unfolding uk by blast
qed


lemma check_matrix_mul_None:
  assumes "check_matrix_mul dimX1 dimY1 dimX2 dimY2 blockSize = None"
  shows "dimX1 \<noteq> 0" "dimY1 \<noteq> 0" "dimX2 \<noteq> 0" "dimY2 = dimX1" "IS_POWER_OF_2 blockSize"
  using assms by (auto simp: check_matrix_mul_def word_less_1 split: if_splits)

lemma unit_unique_on_grid:
  assumes G: "blockSize \<noteq> 0"
    and fx: "unat gx * unat blockSize \<le> 2 ^ 32" and fy: "unat gy * unat blockSize \<le> 2 ^ 32"
    and ix: "unat iX < unat gx * unat blockSize" and iy: "unat iY < unat gy * unat blockSize"
  shows "\<exists>!t. unit_of (dim3_2 gx gy) (dim3_2 blockSize blockSize) t \<and>
               coord_x t = iX \<and> coord_y t = iY"
proof (rule ex1I)
  let ?t = "\<lparr>blockIdx = \<lparr>dim_x = iX div blockSize, dim_y = iY div blockSize, dim_z = 0\<rparr>,
            blockDim = dim3_2 blockSize blockSize,
            threadIdx = \<lparr>dim_x = iX mod blockSize, dim_y = iY mod blockSize, dim_z = 0\<rparr>\<rparr>"
  show "unit_of (dim3_2 gx gy) (dim3_2 blockSize blockSize) ?t \<and> coord_x ?t = iX \<and> coord_y ?t = iY"
    using axis_exists [OF G ix] axis_exists [OF G iy]
    by (simp add: unit_of_def below_def dim3_2_def coord_x_def coord_y_def)
next
  fix t
  assume t: "unit_of (dim3_2 gx gy) (dim3_2 blockSize blockSize) t \<and> coord_x t = iX \<and> coord_y t = iY"
  then have bd: "blockDim t = dim3_2 blockSize blockSize"
    and bx: "dim_x (blockIdx t) < gx" and by': "dim_y (blockIdx t) < gy"
    and bz: "dim_z (blockIdx t) = 0"
    and tx: "dim_x (threadIdx t) < blockSize" and ty: "dim_y (threadIdx t) < blockSize"
    and tz: "dim_z (threadIdx t) = 0"
    by (simp_all add: unit_of_def below_def dim3_2_def word_less_1)
  from t bd have cx: "dim_x (blockIdx t) * blockSize + dim_x (threadIdx t) = iX"
    and cy: "dim_y (blockIdx t) * blockSize + dim_y (threadIdx t) = iY"
    by (simp_all add: coord_x_def coord_y_def dim3_2_def)
  note ux = axis_unique [OF fx bx tx cx] and uy = axis_unique [OF fy by' ty cy]
  have "blockIdx t = \<lparr>dim_x = iX div blockSize, dim_y = iY div blockSize, dim_z = 0\<rparr>"
    using ux uy bz by (intro dim3.equality) simp_all
  moreover have "threadIdx t = \<lparr>dim_x = iX mod blockSize, dim_y = iY mod blockSize, dim_z = 0\<rparr>"
    using ux uy tz by (intro dim3.equality) simp_all
  ultimately show "t = \<lparr>blockIdx = \<lparr>dim_x = iX div blockSize, dim_y = iY div blockSize, dim_z = 0\<rparr>,
            blockDim = dim3_2 blockSize blockSize,
            threadIdx = \<lparr>dim_x = iX mod blockSize, dim_y = iY mod blockSize, dim_z = 0\<rparr>\<rparr>"
    using bd by (intro unit_id.equality) simp_all
qed

lemma matrixMul_unit:
  assumes a: "length a = unat dimX1 * unat dimY1"
    and b: "length b = unat dimX2 * unat dimY2"
    and inner: "dimY2 = dimX1"
    and c: "length c = unat dimX2 * unat dimY1"
  shows "matrixMul t a b c dimX1 dimY1 dimX2 =
           (if coord_x t < dimX2 \<and> coord_y t < dimY1
            then Inr (c[unat (coord_y t * dimX2 + coord_x t) :=
                    (\<Sum>k = 0..<unat dimX1.
                        a ! unat (coord_y t * dimX1 + of_nat k) *
                        b ! unat (of_nat k * dimX2 + coord_x t))])
            else Inr c)"
proof (cases "coord_x t < dimX2 \<and> coord_y t < dimY1")
  case True
  then have iX: "coord_x t < dimX2" and iY: "coord_y t < dimY1"
    by simp_all
  from matrixMul_unit_inside [OF a b inner c iX iY] True show ?thesis
    by simp
next
  case False
  then have "dimX2 \<le> coord_x t \<or> dimY1 \<le> coord_y t"
    by (auto simp: not_less)
  then have m: "matrixMul t a b c dimX1 dimY1 dimX2 = Inr c"
    by (rule matrixMul_outside)
  show ?thesis
    by (simp only: m False if_False)
qed

text \<open>
  Claim C9. When the arguments of matrix\_mul\_nxm\_int.cu pass its checks (each of
  \<open>matrixDimX1\<close>, \<open>matrixDimY1\<close>, \<open>matrixDimX2\<close> not 0, \<open>matrixDimY2 = matrixDimX1\<close>,
  \<open>blockSize\<close> a power of two), the grid sized from \<open>max matrixDimX1 matrixDimX2\<close> and
  \<open>max matrixDimY1 matrixDimY2\<close> is the one with which \<open>main\<close> launches \<open>matrixMul\<close>, its
  only launch, and it covers the output: \<open>gridSizeX * blockSize \<ge> matrixDimX2\<close> and
  \<open>gridSizeY * blockSize \<ge> matrixDimY1\<close> as numbers. For every output element \<open>(iX, iY)\<close>
  with \<open>iX < matrixDimX2\<close> and \<open>iY < matrixDimY1\<close> exactly one unit of that launch has this
  coordinate. On matrices of the given shapes every unit of the launch whose
  coordinate is inside the output writes the element of its coordinate, the sum of
  products, and nothing else; a unit outside writes nothing. So each output element
  is computed, by the one unit of its coordinate.
\<close>

theorem matrix_mul_grid_covers_output:
  assumes valid: "check_matrix_mul matrixDimX1 matrixDimY1 matrixDimX2 matrixDimY2 blockSize = None"
  shows "\<exists>gridDim blockDim'.
           grid_settings_mul matrixDimX1 matrixDimY1 matrixDimX2 matrixDimY2 blockSize
             = Some (gridDim, blockDim') \<and>
           (\<exists>na nb nc.
              filter moves (trace (snd (main_matrix_mul (\<lambda>c. True) correct
                  (matrixDimX1 # matrixDimY1 # matrixDimX2 # matrixDimY2 # blockSize # rest)))) =
                [CudaMemcpy Dev_a Host_a na HostToDevice, CudaMemcpy Dev_b Host_b nb HostToDevice,
                 Launch MatrixMul gridDim blockDim' [matrixDimX1, matrixDimY1, matrixDimX2],
                 CudaMemcpy Host_c Dev_c nc DeviceToHost]) \<and>
           unat matrixDimX2 \<le> unat (dim_x gridDim) * unat blockSize \<and>
           unat matrixDimY1 \<le> unat (dim_y gridDim) * unat blockSize \<and>
           (\<forall>iX iY. iX < matrixDimX2 \<and> iY < matrixDimY1 \<longrightarrow>
              (\<exists>!t. unit_of gridDim blockDim' t \<and> coord_x t = iX \<and> coord_y t = iY)) \<and>
           (\<forall>t a b c.
              unit_of gridDim blockDim' t \<and> length a = unat matrixDimX1 * unat matrixDimY1 \<and>
              length b = unat matrixDimX2 * unat matrixDimY2 \<and>
              length c = unat matrixDimX2 * unat matrixDimY1 \<longrightarrow>
              matrixMul t a b c matrixDimX1 matrixDimY1 matrixDimX2 =
                (if coord_x t < matrixDimX2 \<and> coord_y t < matrixDimY1
                 then Inr (c[unat (coord_y t * matrixDimX2 + coord_x t) :=
                         (\<Sum>k = 0..<unat matrixDimX1.
                             a ! unat (coord_y t * matrixDimX1 + of_nat k) *
                             b ! unat (of_nat k * matrixDimX2 + coord_x t))])
                 else Inr c))"
proof -
  note v = check_matrix_mul_None [OF valid]
  have G: "blockSize \<noteq> 0" using v(5) by (rule IS_POWER_OF_2_nonzero)
  have mx: "max matrixDimX1 matrixDimX2 \<noteq> 0" using v(3) by (auto simp: max_def)
  have my: "max matrixDimY1 matrixDimY2 \<noteq> 0" using v(2) by (auto simp: max_def)
  obtain gx where gx: "gridSize_matrix (max matrixDimX1 matrixDimX2) blockSize = Some gx"
    and cx: "unat (max matrixDimX1 matrixDimX2) \<le> unat gx * unat blockSize"
    and fx: "unat gx * unat blockSize \<le> 2 ^ 32"
    using grid_axis [OF v(5) mx] by blast
  obtain gy where gy: "gridSize_matrix (max matrixDimY1 matrixDimY2) blockSize = Some gy"
    and cy: "unat (max matrixDimY1 matrixDimY2) \<le> unat gy * unat blockSize"
    and fy: "unat gy * unat blockSize \<le> 2 ^ 32"
    using grid_axis [OF v(5) my] by blast
  let ?g = "dim3_2 gx gy" and ?b = "dim3_2 blockSize blockSize"
  have settings: "grid_settings_mul matrixDimX1 matrixDimY1 matrixDimX2 matrixDimY2 blockSize
      = Some (?g, ?b)"
    using gx gy by (simp add: grid_settings_mul_def)
  have launch: "\<exists>na nb nc.
      filter moves (trace (snd (main_matrix_mul (\<lambda>c. True) correct
          (matrixDimX1 # matrixDimY1 # matrixDimX2 # matrixDimY2 # blockSize # rest)))) =
        [CudaMemcpy Dev_a Host_a na HostToDevice, CudaMemcpy Dev_b Host_b nb HostToDevice,
         Launch MatrixMul ?g ?b [matrixDimX1, matrixDimY1, matrixDimX2],
         CudaMemcpy Host_c Dev_c nc DeviceToHost]"
    using valid settings
    by (simp add: run_all_ok start_def finish_def effect_def gpuMatrixMul_def Let_def)
  have "unat matrixDimX2 \<le> unat (max matrixDimX1 matrixDimX2)"
    by (simp add: word_le_nat_alt [symmetric])
  with cx have coverx: "unat matrixDimX2 \<le> unat gx * unat blockSize" by linarith
  then have coverx': "unat matrixDimX2 \<le> unat (dim_x ?g) * unat blockSize"
    by (simp add: dim3_2_def)
  have "unat matrixDimY1 \<le> unat (max matrixDimY1 matrixDimY2)"
    by (simp add: word_le_nat_alt [symmetric])
  with cy have covery: "unat matrixDimY1 \<le> unat gy * unat blockSize" by linarith
  then have covery': "unat matrixDimY1 \<le> unat (dim_y ?g) * unat blockSize"
    by (simp add: dim3_2_def)
  have uniq: "\<forall>iX iY. iX < matrixDimX2 \<and> iY < matrixDimY1 \<longrightarrow>
      (\<exists>!t. unit_of ?g ?b t \<and> coord_x t = iX \<and> coord_y t = iY)"
  proof (intro allI impI)
    fix iX iY
    assume "iX < matrixDimX2 \<and> iY < matrixDimY1"
    then have "unat iX < unat matrixDimX2" "unat iY < unat matrixDimY1"
      by (simp_all add: word_less_nat_alt)
    with coverx covery have "unat iX < unat gx * unat blockSize" "unat iY < unat gy * unat blockSize"
      by linarith+
    then show "\<exists>!t. unit_of ?g ?b t \<and> coord_x t = iX \<and> coord_y t = iY"
      by (rule unit_unique_on_grid [OF G fx fy])
  qed
  have units: "\<forall>t a b c.
      unit_of ?g ?b t \<and> length a = unat matrixDimX1 * unat matrixDimY1 \<and>
      length b = unat matrixDimX2 * unat matrixDimY2 \<and>
      length c = unat matrixDimX2 * unat matrixDimY1 \<longrightarrow>
      matrixMul t a b c matrixDimX1 matrixDimY1 matrixDimX2 =
        (if coord_x t < matrixDimX2 \<and> coord_y t < matrixDimY1
         then Inr (c[unat (coord_y t * matrixDimX2 + coord_x t) :=
                 (\<Sum>k = 0..<unat matrixDimX1.
                     a ! unat (coord_y t * matrixDimX1 + of_nat k) *
                     b ! unat (of_nat k * matrixDimX2 + coord_x t))])
         else Inr c)"
  proof (intro allI impI)
    fix t and a b c :: "i32 list"
    assume h: "unit_of ?g ?b t \<and> length a = unat matrixDimX1 * unat matrixDimY1 \<and>
      length b = unat matrixDimX2 * unat matrixDimY2 \<and>
      length c = unat matrixDimX2 * unat matrixDimY1"
    then have a: "length a = unat matrixDimX1 * unat matrixDimY1"
      and b: "length b = unat matrixDimX2 * unat matrixDimY2"
      and c: "length c = unat matrixDimX2 * unat matrixDimY1"
      by simp_all
    show "matrixMul t a b c matrixDimX1 matrixDimY1 matrixDimX2 =
        (if coord_x t < matrixDimX2 \<and> coord_y t < matrixDimY1
         then Inr (c[unat (coord_y t * matrixDimX2 + coord_x t) :=
                 (\<Sum>k = 0..<unat matrixDimX1.
                     a ! unat (coord_y t * matrixDimX1 + of_nat k) *
                     b ! unat (of_nat k * matrixDimX2 + coord_x t))])
         else Inr c)"
      by (rule matrixMul_unit [OF a b v(4) c])
  qed
  show ?thesis
    by (rule exI [of _ ?g], rule exI [of _ ?b])
       (intro conjI settings launch coverx' covery' uniq units)
qed

theorem matrix_mul_grid_covers_output_witness:
  "check_matrix_mul 2 2 2 2 2 = None \<and>
   grid_settings_mul 2 2 2 2 2 = Some (dim3_2 1 1, dim3_2 2 2) \<and>
   filter moves (trace (snd (main_matrix_mul (\<lambda>c. True) True [2, 2, 2, 2, 2]))) =
     [CudaMemcpy Dev_a Host_a 16 HostToDevice, CudaMemcpy Dev_b Host_b 16 HostToDevice,
      Launch MatrixMul (dim3_2 1 1) (dim3_2 2 2) [2, 2, 2],
      CudaMemcpy Host_c Dev_c 16 DeviceToHost] \<and>
   (\<exists>!t. unit_of (dim3_2 1 1) (dim3_2 2 2) t \<and> coord_x t = 1 \<and> coord_y t = 1) \<and>
   matrixMul \<lparr>blockIdx = \<lparr>dim_x = 0, dim_y = 0, dim_z = 0\<rparr>,
              blockDim = dim3_2 2 2,
              threadIdx = \<lparr>dim_x = 1, dim_y = 1, dim_z = 0\<rparr>\<rparr>
     [1, 0, 0, 1] [5, 6, 7, 8] [0, 0, 0, 0] 2 2 2 = Inr [0, 0, 0, 8]"
proof -
  have p: "IS_POWER_OF_2 2"
    by code_simp
  have v: "check_matrix_mul 2 2 2 2 2 = None"
    using p by (simp add: check_matrix_mul_def)
  have g: "grid_settings_mul 2 2 2 2 2 = Some (dim3_2 1 1, dim3_2 2 2)"
    by (simp add: grid_settings_mul_def gridSize_matrix_def udiv_def)
  have range: "{0..<2::nat} = {0, 1}"
    by auto
  let ?t = "\<lparr>blockIdx = \<lparr>dim_x = 0, dim_y = 0, dim_z = 0\<rparr>,
              blockDim = dim3_2 2 2,
              threadIdx = \<lparr>dim_x = 1, dim_y = 1, dim_z = 0\<rparr>\<rparr>"
  have u: "unit_of (dim3_2 1 1) (dim3_2 2 2) ?t"
    by (simp add: unit_of_def below_def dim3_2_def)
  from matrix_mul_grid_covers_output [OF v, of True "[]"] obtain na nb nc where
    moves: "filter moves (trace (snd (main_matrix_mul (\<lambda>c. True) True [2, 2, 2, 2, 2]))) =
       [CudaMemcpy Dev_a Host_a na HostToDevice, CudaMemcpy Dev_b Host_b nb HostToDevice,
        Launch MatrixMul (dim3_2 1 1) (dim3_2 2 2) [2, 2, 2],
        CudaMemcpy Host_c Dev_c nc DeviceToHost]"
    and uniq: "\<forall>iX iY. iX < (2::u32) \<and> iY < (2::u32) \<longrightarrow>
        (\<exists>!t. unit_of (dim3_2 1 1) (dim3_2 2 2) t \<and> coord_x t = iX \<and> coord_y t = iY)"
    and units: "\<forall>t a b c.
        unit_of (dim3_2 1 1) (dim3_2 2 2) t \<and> length a = unat (2::u32) * unat (2::u32) \<and>
        length b = unat (2::u32) * unat (2::u32) \<and> length c = unat (2::u32) * unat (2::u32) \<longrightarrow>
        matrixMul t a b c 2 2 2 =
          (if coord_x t < 2 \<and> coord_y t < 2
           then Inr (c[unat (coord_y t * 2 + coord_x t) :=
                   (\<Sum>k = 0..<unat (2::u32).
                       a ! unat (coord_y t * 2 + of_nat k) * b ! unat (of_nat k * 2 + coord_x t))])
           else Inr c)"
    unfolding g by auto
  have one: "\<exists>!t. unit_of (dim3_2 1 1) (dim3_2 2 2) t \<and> coord_x t = 1 \<and> coord_y t = 1"
    using uniq by simp
  have k: "matrixMul ?t [1, 0, 0, 1] [5, 6, 7, 8] [0, 0, 0, 0] 2 2 2 = Inr [0, 0, 0, 8]"
    using units [rule_format, of ?t "[1, 0, 0, 1]" "[5, 6, 7, 8]" "[0, 0, 0, 0]"] u
    by (simp add: coord_x_def coord_y_def dim3_2_def range)
  have sizes: "filter moves (trace (snd (main_matrix_mul (\<lambda>c. True) True [2, 2, 2, 2, 2]))) =
     [CudaMemcpy Dev_a Host_a 16 HostToDevice, CudaMemcpy Dev_b Host_b 16 HostToDevice,
      Launch MatrixMul (dim3_2 1 1) (dim3_2 2 2) [2, 2, 2],
      CudaMemcpy Host_c Dev_c 16 DeviceToHost]"
    using moves
    by (simp add: v g run_all_ok start_def finish_def effect_def gpuMatrixMul_def
          matrix_size_def sizeof_int_def)
  from v g sizes one k show ?thesis
    by (intro conjI)
qed

section \<open>The grid of the vector sum\<close>

text \<open>
  Claim C3 asks, for every extent \<open>E \<ge> 1\<close> and group size \<open>G \<ge> 1\<close>, for a group count
  \<open>ceil(E / G)\<close>. The matrix programs compute it for all such \<open>E\<close> and \<open>G\<close>
  (\<open>gridSize_matrix_ceiling\<close>, \<open>ceiling_covers_minimal\<close>), and vector\_sum\_float\_opt.cu
  does when \<open>E + G - 1\<close> fits \<^verbatim>\<open>unsigned int\<close> (\<open>gridSize_vector_ceiling\<close>). Its
  sum \<open>vectorDim + blockSize - 1\<close> wraps otherwise: for \<open>vectorDim = 4294967295\<close> and
  \<open>blockSize = 2\<close>, which pass the checks of \<open>main\<close>, the grid size is 0, and
  \<open>0 * 2 \<ge> 4294967295\<close> fails.
\<close>

theorem gridSize_vector_wraps:
  "check_vector_sum 4294967295 2 = None \<and> gridSize_vector 4294967295 2 = Some 0 \<and>
   \<not> unat (4294967295 :: u32) \<le> unat (0 :: u32) * unat (2 :: u32)"
proof -
  have p: "IS_POWER_OF_2 2"
    by code_simp
  then show ?thesis
    by (simp add: check_vector_sum_def gridSize_vector_def udiv_def)
qed

section \<open>Argument checks\<close>

lemma vector_sum_invalid:
  "vectorDim < 1 \<Longrightarrow>
     \<exists>e. main_vector_sum p ok correct (vectorDim # blockSize # rest) =
       (Exit e, \<lparr>outstanding = [], trace = []\<rparr>) \<and> classify e = InvalidDimension"
  by (simp add: check_vector_sum_def start_def)

lemma matrix_mul_invalid:
  assumes "matrixDimX1 < 1 \<or> matrixDimY1 < 1 \<or> matrixDimX2 < 1 \<or> matrixDimY2 < 1 \<or> matrixDimY2 \<noteq> matrixDimX1"
  shows "\<exists>e. main_matrix_mul ok correct (matrixDimX1 # matrixDimY1 # matrixDimX2 # matrixDimY2 # blockSize # rest) =
       (Exit e, \<lparr>outstanding = [], trace = []\<rparr>) \<and> classify e = InvalidDimension"
proof -
  from assms have "matrixDimX1 < 1 \<or> matrixDimY1 < 1 \<or> matrixDimX2 < 1 \<or> matrixDimY2 \<noteq> matrixDimX1"
    by auto
  then show ?thesis
    by (auto simp: check_matrix_mul_def start_def)
qed

lemma matrix_add_invalid:
  assumes "matrixDimX < 1 \<or> matrixDimY < 1"
  shows "\<exists>e. main_matrix_add p ok correct (matrixDimX # matrixDimY # blockSize # rest) =
       (Exit e, \<lparr>outstanding = [], trace = []\<rparr>) \<and> classify e = InvalidDimension"
    and "\<exists>e. main_matrix_add_old p ok correct (matrixDimX # matrixDimY # blockSize # rest) =
       (Exit e, \<lparr>outstanding = [], trace = []\<rparr>) \<and> classify e = InvalidDimension"
  using assms by (auto simp: check_matrix_add_def start_def)

text \<open>
  What the checks of the mains do catch, whatever the outcome of the device calls would
  be: a vector or matrix dimension that is 0 as an \<^verbatim>\<open>unsigned int\<close>, and
  \<open>matrixDimY2 \<noteq> matrixDimX1\<close>. The program then exits with an error of the kind
  \<open>InvalidDimension\<close>, no call made and no device buffer allocated.
\<close>

lemma zero_extent_or_mismatch_exits_before_device:
  "(vectorDim < 1 \<longrightarrow>
      (\<exists>e. main_vector_sum p ok correct (vectorDim # blockSize # rest) =
              (Exit e, \<lparr>outstanding = [], trace = []\<rparr>) \<and> classify e = InvalidDimension)) \<and>
   (matrixDimX1 < 1 \<or> matrixDimY1 < 1 \<or> matrixDimX2 < 1 \<or> matrixDimY2 < 1 \<or> matrixDimY2 \<noteq> matrixDimX1 \<longrightarrow>
      (\<exists>e. main_matrix_mul ok correct
               (matrixDimX1 # matrixDimY1 # matrixDimX2 # matrixDimY2 # blockSize # rest) =
              (Exit e, \<lparr>outstanding = [], trace = []\<rparr>) \<and> classify e = InvalidDimension)) \<and>
   (matrixDimX < 1 \<or> matrixDimY < 1 \<longrightarrow>
      (\<exists>e. main_matrix_add p ok correct (matrixDimX # matrixDimY # blockSize # rest) =
              (Exit e, \<lparr>outstanding = [], trace = []\<rparr>) \<and> classify e = InvalidDimension) \<and>
      (\<exists>e. main_matrix_add_old p ok correct (matrixDimX # matrixDimY # blockSize # rest) =
              (Exit e, \<lparr>outstanding = [], trace = []\<rparr>) \<and> classify e = InvalidDimension))"
  by (intro conjI impI vector_sum_invalid matrix_mul_invalid matrix_add_invalid)

text \<open>
  Claim C4 asks that every invalid dimension, an extent below 1 or
  \<open>matrixDimY2 \<noteq> matrixDimX1\<close>, ends the program with a validation error before any
  device resource is touched. The mains test \<^verbatim>\<open>vectorDim < 1\<close> (and likewise for the
  matrix dimensions) on the \<^verbatim>\<open>unsigned int\<close> variable that holds what \<^verbatim>\<open>atoi\<close> returned,
  and print the value with \<^verbatim>\<open>%d\<close>. A negative argument is below 1 and passes that
  test in each of the four programs. With the arguments \<open>-1\<close> and \<open>2\<close>,
  vector\_sum\_float\_opt.cu reports no error: it allocates host and device buffers
  of 4294967292 bytes, launches an empty grid and returns 0. With a negative
  dimension the matrix product and both variants of the matrix sum go on to
  \<^verbatim>\<open>cudaMalloc\<close> in the same way, and return 0.
\<close>

theorem negative_dimension_accepted:
  "sint (- 1 :: i32) < 1 \<and>
   check_vector_sum (- 1) 2 = None \<and>
   check_matrix_mul (- 1) 2 2 (- 1) 2 = None \<and>
   check_matrix_add (- 1) 2 2 = None \<and>
   main_vector_sum Single (\<lambda>c. True) False [- 1, 2] =
     (Return0,
      \<lparr>outstanding = [],
       trace = [CudaGetDeviceProperties,
                CudaMallocHost Host_a 4294967292, CudaMallocHost Host_b 4294967292,
                CudaMallocHost Host_c 4294967292,
                Random Host_a, Random Host_b,
                CudaMalloc Dev_a 4294967292, CudaMalloc Dev_b 4294967292,
                CudaMalloc Dev_c 4294967292,
                CudaMemcpyAsync Dev_a Host_a 4294967292 HostToDevice,
                CudaMemcpyAsync Dev_b Host_b 4294967292 HostToDevice,
                Launch VectorAdd (dim3_1 0) (dim3_1 2) [4294967295],
                CudaMemcpy Host_c Dev_c 4294967292 DeviceToHost,
                CudaFree Dev_a, CudaFree Dev_b, CudaFree Dev_c,
                Malloc Host_expected 4294967292, Reference, Report False,
                CudaFreeHost Host_a, CudaFreeHost Host_b, CudaFreeHost Host_c,
                Free Host_expected]\<rparr>) \<and>
   fst (main_matrix_mul (\<lambda>c. True) False [- 1, 2, 2, - 1, 2]) = Return0 \<and>
   CudaMalloc Dev_a 4294967288
     \<in> set (trace (snd (main_matrix_mul (\<lambda>c. True) False [- 1, 2, 2, - 1, 2]))) \<and>
   fst (main_matrix_add Single (\<lambda>c. True) False [- 1, 2, 2]) = Return0 \<and>
   CudaMalloc Dev_a 4294967288
     \<in> set (trace (snd (main_matrix_add Single (\<lambda>c. True) False [- 1, 2, 2]))) \<and>
   fst (main_matrix_add_old Single (\<lambda>c. True) False [- 1, 2, 2]) = Return0 \<and>
   CudaMalloc Dev_a 4294967288
     \<in> set (trace (snd (main_matrix_add_old Single (\<lambda>c. True) False [- 1, 2, 2])))"
proof -
  have p: "IS_POWER_OF_2 2"
    by code_simp
  have n: "(- 1 :: u32) = 4294967295"
    by simp
  have gm: "grid_settings_mul 4294967295 2 2 4294967295 2
      = Some (dim3_2 2147483648 2147483648, dim3_2 2 2)"
    by (simp add: grid_settings_mul_def gridSize_matrix_def udiv_def Let_def)
  have ga: "grid_settings_add 4294967295 2 2 = Some (dim3_2 2147483648 1, dim3_2 2 2)"
    by (simp add: grid_settings_add_def gridSize_matrix_def udiv_def Let_def)
  have ms: "matrix_size sizeof_int 4294967295 2 = 4294967288"
      "matrix_size sizeof_int 2 4294967295 = 4294967288"
      "matrix_size sizeof_int 2 2 = 16"
      "matrix_size (sizeof_REAL Single) 4294967295 2 = 4294967288"
    by (simp_all add: matrix_size_def sizeof_int_def sizeof_REAL_def)
  have v: "check_vector_sum 4294967295 2 = None"
    using p by (simp add: check_vector_sum_def)
  have m: "check_matrix_mul 4294967295 2 2 4294967295 2 = None"
    using p by (simp add: check_matrix_mul_def)
  have a: "check_matrix_add 4294967295 2 2 = None"
    by (simp add: check_matrix_add_def)
  have g: "gridSize_vector 4294967295 2 = Some 0"
    by (simp add: gridSize_vector_def udiv_def)
  have s: "vector_size (sizeof_REAL Single) 4294967295 = 4294967292"
    by (simp add: vector_size_def sizeof_REAL_def)
  have neg: "sint (- 1 :: i32) < 1"
    by simp
  show ?thesis
    using neg unfolding n
    by (simp add: v m a g s gm ga ms gpuVectorAdd_def gpuMatrixMul_def gpuMatrixAdd_def
          start_def finish_def effect_def)
qed

text \<open>
  Claim C5, as amended. With dimensions that pass the checks, matrix\_mul\_nxm\_int.cu and
  vector\_sum\_float\_opt.cu accept a block size exactly when it is a power of two, and
  both variants of matrix\_add\_nxm\_float.cu accept it exactly when it is at least 1.
\<close>

theorem group_size_precondition:
  "(1 \<le> vectorDim \<longrightarrow>
      (check_vector_sum vectorDim blockSize = None \<longleftrightarrow> IS_POWER_OF_2 blockSize)) \<and>
   (1 \<le> matrixDimX1 \<and> 1 \<le> matrixDimY1 \<and> 1 \<le> matrixDimX2 \<and> matrixDimY2 = matrixDimX1 \<longrightarrow>
      (check_matrix_mul matrixDimX1 matrixDimY1 matrixDimX2 matrixDimY2 blockSize = None
         \<longleftrightarrow> IS_POWER_OF_2 blockSize)) \<and>
   (1 \<le> matrixDimX \<and> 1 \<le> matrixDimY \<longrightarrow>
      (check_matrix_add matrixDimX matrixDimY blockSize = None \<longleftrightarrow> 1 \<le> blockSize))"
  by (auto simp: check_vector_sum_def check_matrix_mul_def check_matrix_add_def not_less [symmetric])

theorem group_size_precondition_witness:
  "check_vector_sum 8 3 \<noteq> None \<and> check_matrix_mul 2 2 2 2 3 \<noteq> None \<and>
   check_matrix_add 2 2 3 = None"
proof -
  have "\<not> IS_POWER_OF_2 3"
    by code_simp
  then show ?thesis
    using group_size_precondition [of 8 3 2 2 2 2 2 2] by simp
qed

text \<open>
  Claim C5 as stated fails for the vector sum, an elementwise addition: the positive
  block size 3 is rejected.
\<close>

theorem vector_sum_rejects_block_size_3:
  "main_vector_sum Single (\<lambda>c. True) True [8, 3] =
     (Exit (ExpectedPowerOf2 ''blockSize'' 3), \<lparr>outstanding = [], trace = []\<rparr>) \<and> (1::u32) \<le> 3"
proof -
  have "\<not> IS_POWER_OF_2 3"
    by code_simp
  then show ?thesis
    by (simp add: check_vector_sum_def start_def)
qed

section \<open>Device buffers at the end of a program\<close>

lemma released_vector_sum:
  "(\<And>c. ok c) \<Longrightarrow> outstanding (snd (main_vector_sum p ok correct args)) = []"
  by (induction p ok correct args rule: main_vector_sum.induct)
     (simp_all add: run_all_ok start_def finish_def effect_def gpuVectorAdd_def Let_def
          split: option.splits)

lemma released_matrix_mul:
  "(\<And>c. ok c) \<Longrightarrow> outstanding (snd (main_matrix_mul ok correct args)) = []"
  by (induction ok correct args rule: main_matrix_mul.induct)
     (simp_all add: run_all_ok start_def finish_def effect_def gpuMatrixMul_def Let_def
          split: option.splits)

lemma released_matrix_add:
  "(\<And>c. ok c) \<Longrightarrow> outstanding (snd (main_matrix_add p ok correct args)) = []"
  by (induction p ok correct args rule: main_matrix_add.induct)
     (simp_all add: run_all_ok start_def finish_def effect_def gpuMatrixAdd_def Let_def
          split: option.splits)

lemma released_matrix_add_old:
  "(\<And>c. ok c) \<Longrightarrow> outstanding (snd (main_matrix_add_old p ok correct args)) = []"
  by (induction p ok correct args rule: main_matrix_add_old.induct)
     (simp_all add: run_all_ok start_def finish_def effect_def Let_def
          split: option.splits)

lemma released_threads:
  "(\<And>c. ok c) \<Longrightarrow> outstanding (snd (main_threads ok correct)) = []"
  by (simp add: main_threads_def run_all_ok start_def finish_def effect_def)

text \<open>
  Claim C7, as amended. When no checked call fails, every program ends with no device
  buffer outstanding, whether the result was found correct or not, and whatever the
  arguments (a program that rejects its arguments has allocated nothing).
\<close>

theorem buffers_released_when_calls_succeed:
  "outstanding (snd (main_vector_sum p (\<lambda>c. True) correct args)) = [] \<and>
   outstanding (snd (main_matrix_mul (\<lambda>c. True) correct args)) = [] \<and>
   outstanding (snd (main_matrix_add p (\<lambda>c. True) correct args)) = [] \<and>
   outstanding (snd (main_matrix_add_old p (\<lambda>c. True) correct args)) = [] \<and>
   outstanding (snd (main_threads (\<lambda>c. True) correct)) = []"
  by (simp add: released_vector_sum released_matrix_mul released_matrix_add
        released_matrix_add_old released_threads)

text \<open>
  Claim C7 as stated fails on the path of a fatal error: in matrix\_mul\_nxm\_int.cu on
  2 by 2 matrices, when the allocation of \<open>dev_b\<close> fails the program exits at that call
  and \<open>dev_a\<close>, allocated before, is still outstanding.
\<close>

theorem failed_allocation_leaves_buffer:
  "main_matrix_mul (\<lambda>c. c \<noteq> CudaMalloc Dev_b 16) True [2, 2, 2, 2, 2] =
     (Exit (CallFailed (CudaMalloc Dev_b 16)),
      \<lparr>outstanding = [Dev_a],
       trace = [CudaGetDeviceProperties, Malloc Host_a 16, Malloc Host_b 16, Malloc Host_c 16,
                Random Host_a, Random Host_b, CudaMalloc Dev_a 16]\<rparr>)"
proof -
  have p: "IS_POWER_OF_2 2"
    by code_simp
  have v: "check_matrix_mul 2 2 2 2 2 = None"
    using p by (simp add: check_matrix_mul_def)
  have g: "grid_settings_mul 2 2 2 2 2 = Some (dim3_2 1 1, dim3_2 2 2)"
    by (simp add: grid_settings_mul_def gridSize_matrix_def udiv_def)
  have s: "matrix_size sizeof_int 2 2 = 16"
    by (simp add: matrix_size_def sizeof_int_def)
  show ?thesis
    by (simp add: v g s gpuMatrixMul_def start_def finish_def effect_def)
qed

section \<open>Grid settings of accepted arguments\<close>

lemma matrix_mul_grid_settings_Some:
  assumes "check_matrix_mul matrixDimX1 matrixDimY1 matrixDimX2 matrixDimY2 blockSize = None"
  shows "\<exists>gridDim blockDim'. grid_settings_mul matrixDimX1 matrixDimY1 matrixDimX2 matrixDimY2 blockSize
             = Some (gridDim, blockDim')"
proof -
  have "blockSize \<noteq> 0"
    using check_matrix_mul_None(5) [OF assms] by (rule IS_POWER_OF_2_nonzero)
  then show ?thesis
    by (simp add: grid_settings_mul_def gridSize_matrix_def udiv_def Let_def)
qed

lemma matrix_add_grid_settings_Some:
  assumes "check_matrix_add matrixDimX matrixDimY blockSize = None"
  shows "\<exists>gridDim blockDim'. grid_settings_add matrixDimX matrixDimY blockSize
             = Some (gridDim, blockDim')"
proof -
  have "blockSize \<noteq> 0"
    using assms by (auto simp: check_matrix_add_def split: if_splits)
  then show ?thesis
    by (simp add: grid_settings_add_def gridSize_matrix_def udiv_def)
qed

section \<open>Byte counts\<close>

lemma unat_to_size_t: "unat (ucast (w :: u32) :: size_t) = unat w"
proof -
  have "unat w < 2 ^ 64"
    using unat_bound [of w] by simp
  then show ?thesis
    by (simp add: unsigned_ucast_eq take_bit_eq_mod)
qed

lemma unat_to_unsigned_int: "unat (ucast (w :: size_t) :: u32) = unat w mod 2 ^ 32"
  by (simp add: unsigned_ucast_eq take_bit_eq_mod)

lemma mod_size_t_unsigned_int: "(n::nat) mod 2 ^ 64 mod 2 ^ 32 = n mod 2 ^ 32"
  by (rule mod_mod_cancel) (simp add: le_imp_power_dvd)

lemma unat_vector_size:
  "unat (vector_size sizeof_elem vectorDim) = unat vectorDim * unat sizeof_elem mod 2 ^ 32"
proof -
  have "unat (vector_size sizeof_elem vectorDim)
      = unat ((ucast vectorDim :: size_t) * sizeof_elem) mod 2 ^ 32"
    unfolding vector_size_def by (rule unat_to_unsigned_int)
  also have "unat ((ucast vectorDim :: size_t) * sizeof_elem)
      = unat vectorDim * unat sizeof_elem mod 2 ^ 64"
    by (simp add: unat_word_ariths unat_to_size_t)
  finally show ?thesis
    by (simp only: mod_size_t_unsigned_int)
qed

lemma unat_matrix_size:
  "unat (matrix_size sizeof_elem matrixDimX matrixDimY)
     = unat matrixDimX * unat matrixDimY * unat sizeof_elem mod 2 ^ 32"
proof -
  have "unat (matrix_size sizeof_elem matrixDimX matrixDimY)
      = unat ((ucast (matrixDimX * matrixDimY) :: size_t) * sizeof_elem) mod 2 ^ 32"
    unfolding matrix_size_def by (rule unat_to_unsigned_int)
  also have "unat ((ucast (matrixDimX * matrixDimY) :: size_t) * sizeof_elem)
      = unat (matrixDimX * matrixDimY) * unat sizeof_elem mod 2 ^ 64"
    by (simp add: unat_word_ariths unat_to_size_t)
  finally have "unat (matrix_size sizeof_elem matrixDimX matrixDimY)
      = unat (matrixDimX * matrixDimY) * unat sizeof_elem mod 2 ^ 32"
    by (simp only: mod_size_t_unsigned_int)
  also have "unat (matrixDimX * matrixDimY) = unat matrixDimX * unat matrixDimY mod 2 ^ 32"
    by (simp add: unat_word_ariths)
  finally show ?thesis
    by (simp only: mod_mult_left_eq)
qed

lemma byte_counts_gpuVectorAdd:
  "List.map_filter byte_count (gpuVectorAdd p vectorDim gridDim blockDim')
     = replicate 6 (vector_size (sizeof_REAL p) vectorDim)"
  by (simp add: gpuVectorAdd_def Let_def List.map_filter_simps numeral_eq_Suc)

lemma byte_counts_gpuMatrixAdd:
  "List.map_filter byte_count (gpuMatrixAdd p matrixDimX matrixDimY gridDim blockDim')
     = replicate 6 (matrix_size (sizeof_REAL p) matrixDimX matrixDimY)"
  by (simp add: gpuMatrixAdd_def Let_def List.map_filter_simps numeral_eq_Suc)

lemma byte_counts_gpuMatrixMul:
  "List.map_filter byte_count
       (gpuMatrixMul matrixDimX1 matrixDimY1 matrixDimX2 matrixDimY2 gridDim blockDim')
     = [matrix_size sizeof_int matrixDimX1 matrixDimY1,
        matrix_size sizeof_int matrixDimX2 matrixDimY2,
        matrix_size sizeof_int matrixDimY1 matrixDimX2,
        matrix_size sizeof_int matrixDimX1 matrixDimY1,
        matrix_size sizeof_int matrixDimX2 matrixDimY2,
        matrix_size sizeof_int matrixDimY1 matrixDimX2]"
  by (simp add: gpuMatrixMul_def Let_def List.map_filter_simps)

lemma wrapped_sizes:
  "size_threads = 2048"
  "vector_size (sizeof_REAL Single) 1073741824 = 0"
  "matrix_size sizeof_int 65536 16384 = 0"
  "sizeof_REAL Single = 4"
  "sizeof_REAL Double = 8"
  "sizeof_int = 4"
  by (simp_all add: vector_size_def matrix_size_def sizeof_REAL_def sizeof_int_def
        size_threads_def N_def)

lemma replicate_10: "replicate 10 v = [v, v, v, v, v, v, v, v, v, v]"
  by (simp add: numeral_eq_Suc)

lemma replicate_9: "replicate 9 v = [v, v, v, v, v, v, v, v, v]"
  by (simp add: numeral_eq_Suc)

lemma byte_counts_main_vector_sum:
  assumes "check_vector_sum vectorDim blockSize = None"
  shows "List.map_filter byte_count
           (trace (snd (main_vector_sum p (\<lambda>c. True) correct (vectorDim # blockSize # rest))))
         = replicate 10 (vector_size (sizeof_REAL p) vectorDim)"
proof -
  from assms have "IS_POWER_OF_2 blockSize"
    by (simp add: check_vector_sum_def split: if_splits)
  then have "blockSize \<noteq> 0"
    by (rule IS_POWER_OF_2_nonzero)
  then obtain g where "gridSize_vector vectorDim blockSize = Some g"
    by (simp add: gridSize_vector_def udiv_def)
  with assms show ?thesis
    by (simp add: run_all_ok start_def finish_def effect_def gpuVectorAdd_def Let_def
          List.map_filter_simps replicate_10)
qed

lemma byte_counts_main_matrix_mul:
  assumes "check_matrix_mul matrixDimX1 matrixDimY1 matrixDimX2 matrixDimY2 blockSize = None"
  shows "List.map_filter byte_count
           (trace (snd (main_matrix_mul (\<lambda>c. True) correct
              (matrixDimX1 # matrixDimY1 # matrixDimX2 # matrixDimY2 # blockSize # rest))))
         = [matrix_size sizeof_int matrixDimX1 matrixDimY1,
            matrix_size sizeof_int matrixDimX2 matrixDimY2,
            matrix_size sizeof_int matrixDimY1 matrixDimX2,
            matrix_size sizeof_int matrixDimX1 matrixDimY1,
            matrix_size sizeof_int matrixDimX2 matrixDimY2,
            matrix_size sizeof_int matrixDimY1 matrixDimX2,
            matrix_size sizeof_int matrixDimX1 matrixDimY1,
            matrix_size sizeof_int matrixDimX2 matrixDimY2,
            matrix_size sizeof_int matrixDimY1 matrixDimX2,
            matrix_size sizeof_int matrixDimY1 matrixDimX2]"
proof -
  from matrix_mul_grid_settings_Some [OF assms] obtain gridDim blockDim'
    where "grid_settings_mul matrixDimX1 matrixDimY1 matrixDimX2 matrixDimY2 blockSize
             = Some (gridDim, blockDim')" by blast
  with assms show ?thesis
    by (simp add: run_all_ok start_def finish_def effect_def gpuMatrixMul_def Let_def
          List.map_filter_simps)
qed

lemma byte_counts_main_matrix_add:
  assumes "check_matrix_add matrixDimX matrixDimY blockSize = None"
  shows "List.map_filter byte_count
           (trace (snd (main_matrix_add p (\<lambda>c. True) correct
              (matrixDimX # matrixDimY # blockSize # rest))))
         = replicate 10 (matrix_size (sizeof_REAL p) matrixDimX matrixDimY)"
proof -
  from matrix_add_grid_settings_Some [OF assms] obtain gridDim blockDim'
    where "grid_settings_add matrixDimX matrixDimY blockSize = Some (gridDim, blockDim')"
    by blast
  with assms show ?thesis
    by (simp add: run_all_ok start_def finish_def effect_def gpuMatrixAdd_def Let_def
          List.map_filter_simps replicate_10)
qed

lemma byte_counts_main_matrix_add_old:
  assumes "check_matrix_add matrixDimX matrixDimY blockSize = None"
  shows "List.map_filter byte_count
           (trace (snd (main_matrix_add_old p (\<lambda>c. True) correct
              (matrixDimX # matrixDimY # blockSize # rest))))
         = replicate 10 (matrix_size (sizeof_REAL p) matrixDimX matrixDimY)"
proof -
  from matrix_add_grid_settings_Some [OF assms] obtain gridDim blockDim'
    where "grid_settings_add matrixDimX matrixDimY blockSize = Some (gridDim, blockDim')"
    by blast
  with assms show ?thesis
    by (simp add: run_all_ok start_def finish_def effect_def Let_def
          List.map_filter_simps replicate_10)
qed

lemma byte_counts_main_threads:
  "List.map_filter byte_count (trace (snd (main_threads (\<lambda>c. True) correct)))
     = replicate 9 size_threads"
  by (simp add: main_threads_def run_all_ok start_def finish_def effect_def
        List.map_filter_simps replicate_9)

text \<open>
  Claim C10. A byte count is the product of the extents and the element size reduced
  modulo \<open>2 ^ 32\<close>: \<open>vectorDim * sizeof(element)\<close> for a vector, \<open>dimX * dimY *
  sizeof(element)\<close> for a matrix. Every allocation and every copy of \<open>gpuVectorAdd\<close>,
  \<open>gpuMatrixAdd\<close> and \<open>gpuMatrixMul\<close> is given that reduced count, and so is every
  allocation and every copy of a whole run of each \<open>main\<close> whose arguments pass the
  checks: the vector sum, the matrix product, and both variants of the matrix sum, the
  older of which computes the count and makes the device calls in \<open>main\<close> itself. A vector
  of \<open>2 ^ 30\<close> floats and a 65536 by 16384 matrix of ints, whose true sizes are \<open>2 ^ 32\<close>
  bytes, get the byte count 0. addvec\_threads.cu has the fixed count 2048 in all of its
  allocations and copies. An element has 4 bytes as a float or an int and 8 as a double.
\<close>

theorem buffer_sizes_wrap:
  "unat (vector_size sizeof_elem vectorDim) = unat vectorDim * unat sizeof_elem mod 2 ^ 32 \<and>
   unat (matrix_size sizeof_elem matrixDimX matrixDimY)
     = unat matrixDimX * unat matrixDimY * unat sizeof_elem mod 2 ^ 32 \<and>
   List.map_filter byte_count (gpuVectorAdd p vectorDim gridDim blockDim')
     = replicate 6 (vector_size (sizeof_REAL p) vectorDim) \<and>
   List.map_filter byte_count (gpuMatrixAdd p matrixDimX matrixDimY gridDim blockDim')
     = replicate 6 (matrix_size (sizeof_REAL p) matrixDimX matrixDimY) \<and>
   List.map_filter byte_count
       (gpuMatrixMul matrixDimX1 matrixDimY1 matrixDimX2 matrixDimY2 gridDim blockDim')
     = [matrix_size sizeof_int matrixDimX1 matrixDimY1,
        matrix_size sizeof_int matrixDimX2 matrixDimY2,
        matrix_size sizeof_int matrixDimY1 matrixDimX2,
        matrix_size sizeof_int matrixDimX1 matrixDimY1,
        matrix_size sizeof_int matrixDimX2 matrixDimY2,
        matrix_size sizeof_int matrixDimY1 matrixDimX2] \<and>
   size_threads = 2048 \<and>
   vector_size (sizeof_REAL Single) 1073741824 = 0 \<and>
   matrix_size sizeof_int 65536 16384 = 0 \<and>
   sizeof_REAL Single = 4 \<and> sizeof_REAL Double = 8 \<and> sizeof_int = 4 \<and>
   (check_vector_sum vectorDim blockSize = None \<longrightarrow>
      List.map_filter byte_count
        (trace (snd (main_vector_sum p (\<lambda>c. True) correct (vectorDim # blockSize # rest))))
      = replicate 10 (vector_size (sizeof_REAL p) vectorDim)) \<and>
   (check_matrix_mul matrixDimX1 matrixDimY1 matrixDimX2 matrixDimY2 blockSize = None \<longrightarrow>
      List.map_filter byte_count
        (trace (snd (main_matrix_mul (\<lambda>c. True) correct
           (matrixDimX1 # matrixDimY1 # matrixDimX2 # matrixDimY2 # blockSize # rest))))
      = [matrix_size sizeof_int matrixDimX1 matrixDimY1,
         matrix_size sizeof_int matrixDimX2 matrixDimY2,
         matrix_size sizeof_int matrixDimY1 matrixDimX2,
         matrix_size sizeof_int matrixDimX1 matrixDimY1,
         matrix_size sizeof_int matrixDimX2 matrixDimY2,
         matrix_size sizeof_int matrixDimY1 matrixDimX2,
         matrix_size sizeof_int matrixDimX1 matrixDimY1,
         matrix_size sizeof_int matrixDimX2 matrixDimY2,
         matrix_size sizeof_int matrixDimY1 matrixDimX2,
         matrix_size sizeof_int matrixDimY1 matrixDimX2]) \<and>
   (check_matrix_add matrixDimX matrixDimY blockSize = None \<longrightarrow>
      List.map_filter byte_count
        (trace (snd (main_matrix_add p (\<lambda>c. True) correct
           (matrixDimX # matrixDimY # blockSize # rest))))
      = replicate 10 (matrix_size (sizeof_REAL p) matrixDimX matrixDimY) \<and>
      List.map_filter byte_count
        (trace (snd (main_matrix_add_old p (\<lambda>c. True) correct
           (matrixDimX # matrixDimY # blockSize # rest))))
      = replicate 10 (matrix_size (sizeof_REAL p) matrixDimX matrixDimY)) \<and>
   List.map_filter byte_count (trace (snd (main_threads (\<lambda>c. True) correct)))
     = replicate 9 size_threads"
  by (intro conjI impI unat_vector_size unat_matrix_size byte_counts_gpuVectorAdd
      byte_counts_gpuMatrixAdd byte_counts_gpuMatrixMul wrapped_sizes
      byte_counts_main_vector_sum byte_counts_main_matrix_mul byte_counts_main_matrix_add
      byte_counts_main_matrix_add_old byte_counts_main_threads)

text \<open>
  Runs at wrapping extents: a vector of \<open>2 ^ 30\<close> floats and matrices of \<open>2 ^ 30\<close> elements
  pass the checks, and their allocations and copies are given the byte count 0.
\<close>

theorem buffer_sizes_wrap_witness:
  "check_vector_sum 1073741824 4 = None \<and> check_matrix_mul 65536 16384 16384 65536 4 = None \<and>
   check_matrix_add 65536 16384 4 = None \<and>
   List.map_filter byte_count
     (trace (snd (main_vector_sum Single (\<lambda>c. True) True [1073741824, 4])))
     = [0, 0, 0, 0, 0, 0, 0, 0, 0, 0] \<and>
   List.map_filter byte_count
     (trace (snd (main_matrix_mul (\<lambda>c. True) True [65536, 16384, 16384, 65536, 4])))
     = [0, 0, 1073741824, 0, 0, 1073741824, 0, 0, 1073741824, 1073741824] \<and>
   List.map_filter byte_count
     (trace (snd (main_matrix_add Single (\<lambda>c. True) True [65536, 16384, 4])))
     = [0, 0, 0, 0, 0, 0, 0, 0, 0, 0] \<and>
   List.map_filter byte_count
     (trace (snd (main_matrix_add_old Single (\<lambda>c. True) True [65536, 16384, 4])))
     = [0, 0, 0, 0, 0, 0, 0, 0, 0, 0]"
proof -
  have p: "IS_POWER_OF_2 4"
    by code_simp
  have v: "check_vector_sum 1073741824 4 = None"
      "check_matrix_mul 65536 16384 16384 65536 4 = None"
      "check_matrix_add 65536 16384 4 = None"
    using p by (simp_all add: check_vector_sum_def check_matrix_mul_def check_matrix_add_def)
  have s: "vector_size (sizeof_REAL Single) 1073741824 = 0"
      "matrix_size sizeof_int 65536 16384 = 0"
      "matrix_size sizeof_int 16384 65536 = 0"
      "matrix_size sizeof_int 16384 16384 = 1073741824"
      "matrix_size (sizeof_REAL Single) 65536 16384 = 0"
    by (simp_all add: vector_size_def matrix_size_def sizeof_REAL_def sizeof_int_def)
  show ?thesis
    using buffer_sizes_wrap
      [of 4 1073741824 65536 16384 Single "dim3_1 1" "dim3_1 4" 65536 16384 16384 65536 4 True "[]"]
    by (simp only: v s replicate_10 simp_thms)
qed

section \<open>The ordering contract on each program\<close>

lemma ordered_finish_run:
  assumes "ordered False cs"
  shows "ordered False (trace (snd (finish (run ok cs start))))"
proof -
  obtain n where "trace (snd (run ok cs start)) = trace start @ take n cs"
    using trace_run by blast
  then have "trace (snd (finish (run ok cs start))) = take n cs"
    by (simp add: finish_def start_def split: option.splits)
  with assms show ?thesis
    by (simp add: ordered_take)
qed

lemma ordered_start: "ordered False (trace start)"
  by (simp add: start_def)

lemma ordered_vector_sum: "ordered False (trace (snd (main_vector_sum p ok correct args)))"
  by (induction p ok correct args rule: main_vector_sum.induct)
     (simp_all add: ordered_start ordered_finish_run gpuVectorAdd_def Let_def del: run.simps split: option.splits)

lemma ordered_matrix_mul: "ordered False (trace (snd (main_matrix_mul ok correct args)))"
  by (induction ok correct args rule: main_matrix_mul.induct)
     (simp_all add: ordered_start ordered_finish_run gpuMatrixMul_def Let_def del: run.simps split: option.splits)

lemma ordered_matrix_add: "ordered False (trace (snd (main_matrix_add p ok correct args)))"
  by (induction p ok correct args rule: main_matrix_add.induct)
     (simp_all add: ordered_start ordered_finish_run gpuMatrixAdd_def Let_def del: run.simps split: option.splits)

lemma ordered_matrix_add_old: "ordered False (trace (snd (main_matrix_add_old p ok correct args)))"
  by (induction p ok correct args rule: main_matrix_add_old.induct)
     (simp_all add: ordered_start ordered_finish_run Let_def del: run.simps split: option.splits)

lemma ordered_threads: "ordered False (trace (snd (main_threads ok correct)))"
  by (simp add: main_threads_def ordered_finish_run del: run.simps)

lemma moves_vector_sum:
  assumes "check_vector_sum vectorDim blockSize = None"
  shows "\<exists>gridDim blockDim' n.
     filter moves (trace (snd (main_vector_sum p (\<lambda>c. True) correct (vectorDim # blockSize # rest)))) =
       [CudaMemcpyAsync Dev_a Host_a n HostToDevice, CudaMemcpyAsync Dev_b Host_b n HostToDevice,
        Launch VectorAdd gridDim blockDim' [vectorDim],
        CudaMemcpy Host_c Dev_c n DeviceToHost]"
proof -
  from assms have "IS_POWER_OF_2 blockSize"
    by (simp add: check_vector_sum_def split: if_splits)
  then have "blockSize \<noteq> 0" by (rule IS_POWER_OF_2_nonzero)
  then obtain g where "gridSize_vector vectorDim blockSize = Some g"
    by (simp add: gridSize_vector_def udiv_def)
  with assms show ?thesis
    by (simp add: run_all_ok start_def finish_def effect_def gpuVectorAdd_def Let_def)
qed

lemma moves_matrix_mul:
  assumes "check_matrix_mul matrixDimX1 matrixDimY1 matrixDimX2 matrixDimY2 blockSize = None"
  shows "\<exists>gridDim blockDim' na nb nc.
     filter moves (trace (snd (main_matrix_mul (\<lambda>c. True) correct
         (matrixDimX1 # matrixDimY1 # matrixDimX2 # matrixDimY2 # blockSize # rest)))) =
       [CudaMemcpy Dev_a Host_a na HostToDevice, CudaMemcpy Dev_b Host_b nb HostToDevice,
        Launch MatrixMul gridDim blockDim' [matrixDimX1, matrixDimY1, matrixDimX2],
        CudaMemcpy Host_c Dev_c nc DeviceToHost]"
proof -
  from matrix_mul_grid_settings_Some [OF assms] obtain gridDim blockDim'
    where "grid_settings_mul matrixDimX1 matrixDimY1 matrixDimX2 matrixDimY2 blockSize
             = Some (gridDim, blockDim')" by blast
  with assms show ?thesis
    by (simp add: run_all_ok start_def finish_def effect_def gpuMatrixMul_def Let_def)
qed


lemma moves_matrix_add:
  assumes "check_matrix_add matrixDimX matrixDimY blockSize = None"
  shows "\<exists>gridDim blockDim' n.
     filter moves (trace (snd (main_matrix_add p (\<lambda>c. True) correct
         (matrixDimX # matrixDimY # blockSize # rest)))) =
       [CudaMemcpy Dev_a Host_a n HostToDevice, CudaMemcpy Dev_b Host_b n HostToDevice,
        Launch MatrixAdd gridDim blockDim' [matrixDimX, matrixDimY],
        CudaMemcpy Host_c Dev_c n DeviceToHost]"
proof -
  from matrix_add_grid_settings_Some [OF assms] obtain gridDim blockDim'
    where "grid_settings_add matrixDimX matrixDimY blockSize = Some (gridDim, blockDim')"
    by blast
  with assms show ?thesis
    by (simp add: run_all_ok start_def finish_def effect_def gpuMatrixAdd_def Let_def)
qed

lemma moves_matrix_add_old:
  assumes "check_matrix_add matrixDimX matrixDimY blockSize = None"
  shows "\<exists>gridDim blockDim' n.
     filter moves (trace (snd (main_matrix_add_old p (\<lambda>c. True) correct
         (matrixDimX # matrixDimY # blockSize # rest)))) =
       [CudaMemcpy Dev_a Host_a n HostToDevice, CudaMemcpy Dev_b Host_b n HostToDevice,
        Launch Add_matrix gridDim blockDim' [matrixDimX, matrixDimY],
        CudaMemcpy Host_c Dev_c n DeviceToHost]"
proof -
  from matrix_add_grid_settings_Some [OF assms] obtain gridDim blockDim'
    where "grid_settings_add matrixDimX matrixDimY blockSize = Some (gridDim, blockDim')"
    by blast
  with assms show ?thesis
    by (simp add: run_all_ok start_def finish_def effect_def Let_def)
qed

lemma moves_threads:
  "filter moves (trace (snd (main_threads (\<lambda>c. True) correct))) =
     [CudaMemcpy Dev_a Host_a size_threads HostToDevice,
      CudaMemcpy Dev_b Host_b size_threads HostToDevice,
      Launch Add_threads (dim3_1 1) (dim3_1 N) [],
      CudaMemcpy Host_c Dev_c size_threads DeviceToHost]"
  by (simp add: main_threads_def run_all_ok start_def finish_def effect_def)

text \<open>
  Claim C8. In the calls a program has made, whichever call may have failed, no upload
  comes after the launch and no download before it. When no call fails and the
  arguments pass the checks, the copies and launches made are, in this order: the upload
  of \<open>a\<close>, the upload of \<open>b\<close>, the one launch, the download of \<open>c\<close>. The default
  stream runs them in this order, so the inputs are on the device before the kernel
  starts and the kernel has finished before the result is copied back.
\<close>

theorem uploads_launch_download_in_order:
  "ordered False (trace (snd (main_vector_sum p ok correct args))) \<and>
   ordered False (trace (snd (main_matrix_mul ok correct args))) \<and>
   ordered False (trace (snd (main_matrix_add p ok correct args))) \<and>
   ordered False (trace (snd (main_matrix_add_old p ok correct args))) \<and>
   ordered False (trace (snd (main_threads ok correct))) \<and>
   (check_vector_sum vectorDim blockSize = None \<longrightarrow>
     (\<exists>gridDim blockDim' n.
       filter moves (trace (snd (main_vector_sum p (\<lambda>c. True) correct (vectorDim # blockSize # rest)))) =
         [CudaMemcpyAsync Dev_a Host_a n HostToDevice, CudaMemcpyAsync Dev_b Host_b n HostToDevice,
          Launch VectorAdd gridDim blockDim' [vectorDim],
          CudaMemcpy Host_c Dev_c n DeviceToHost])) \<and>
   (check_matrix_mul matrixDimX1 matrixDimY1 matrixDimX2 matrixDimY2 blockSize = None \<longrightarrow>
     (\<exists>gridDim blockDim' na nb nc.
       filter moves (trace (snd (main_matrix_mul (\<lambda>c. True) correct
           (matrixDimX1 # matrixDimY1 # matrixDimX2 # matrixDimY2 # blockSize # rest)))) =
         [CudaMemcpy Dev_a Host_a na HostToDevice, CudaMemcpy Dev_b Host_b nb HostToDevice,
          Launch MatrixMul gridDim blockDim' [matrixDimX1, matrixDimY1, matrixDimX2],
          CudaMemcpy Host_c Dev_c nc DeviceToHost])) \<and>
   (check_matrix_add matrixDimX matrixDimY blockSize = None \<longrightarrow>
     (\<exists>gridDim blockDim' n.
       filter moves (trace (snd (main_matrix_add p (\<lambda>c. True) correct
           (matrixDimX # matrixDimY # blockSize # rest)))) =
         [CudaMemcpy Dev_a Host_a n HostToDevice, CudaMemcpy Dev_b Host_b n HostToDevice,
          Launch MatrixAdd gridDim blockDim' [matrixDimX, matrixDimY],
          CudaMemcpy Host_c Dev_c n DeviceToHost]) \<and>
     (\<exists>gridDim blockDim' n.
       filter moves (trace (snd (main_matrix_add_old p (\<lambda>c. True) correct
           (matrixDimX # matrixDimY # blockSize # rest)))) =
         [CudaMemcpy Dev_a Host_a n HostToDevice, CudaMemcpy Dev_b Host_b n HostToDevice,
          Launch Add_matrix gridDim blockDim' [matrixDimX, matrixDimY],
          CudaMemcpy Host_c Dev_c n DeviceToHost])) \<and>
   filter moves (trace (snd (main_threads (\<lambda>c. True) correct))) =
     [CudaMemcpy Dev_a Host_a size_threads HostToDevice,
      CudaMemcpy Dev_b Host_b size_threads HostToDevice,
      Launch Add_threads (dim3_1 1) (dim3_1 N) [],
      CudaMemcpy Host_c Dev_c size_threads DeviceToHost]"
  by (intro conjI impI ordered_vector_sum ordered_matrix_mul ordered_matrix_add
      ordered_matrix_add_old ordered_threads moves_vector_sum moves_matrix_mul
      moves_matrix_add moves_matrix_add_old moves_threads)

theorem uploads_launch_download_in_order_witness:
  "check_vector_sum 4 4 = None \<and> check_matrix_mul 4 4 4 4 4 = None \<and> check_matrix_add 4 4 4 = None \<and>
   (\<exists>gridDim blockDim' n.
       filter moves (trace (snd (main_vector_sum Single (\<lambda>c. True) True [4, 4]))) =
         [CudaMemcpyAsync Dev_a Host_a n HostToDevice, CudaMemcpyAsync Dev_b Host_b n HostToDevice,
          Launch VectorAdd gridDim blockDim' [4],
          CudaMemcpy Host_c Dev_c n DeviceToHost]) \<and>
   (\<exists>gridDim blockDim' na nb nc.
       filter moves (trace (snd (main_matrix_mul (\<lambda>c. True) True [4, 4, 4, 4, 4]))) =
         [CudaMemcpy Dev_a Host_a na HostToDevice, CudaMemcpy Dev_b Host_b nb HostToDevice,
          Launch MatrixMul gridDim blockDim' [4, 4, 4],
          CudaMemcpy Host_c Dev_c nc DeviceToHost]) \<and>
   (\<exists>gridDim blockDim' n.
       filter moves (trace (snd (main_matrix_add Single (\<lambda>c. True) True [4, 4, 4]))) =
         [CudaMemcpy Dev_a Host_a n HostToDevice, CudaMemcpy Dev_b Host_b n HostToDevice,
          Launch MatrixAdd gridDim blockDim' [4, 4],
          CudaMemcpy Host_c Dev_c n DeviceToHost]) \<and>
   (\<exists>gridDim blockDim' n.
       filter moves (trace (snd (main_matrix_add_old Single (\<lambda>c. True) True [4, 4, 4]))) =
         [CudaMemcpy Dev_a Host_a n HostToDevice, CudaMemcpy Dev_b Host_b n HostToDevice,
          Launch Add_matrix gridDim blockDim' [4, 4],
          CudaMemcpy Host_c Dev_c n DeviceToHost])"
proof -
  have p: "IS_POWER_OF_2 4"
    by code_simp
  have v: "check_vector_sum 4 4 = None" "check_matrix_mul 4 4 4 4 4 = None"
      "check_matrix_add 4 4 4 = None"
    using p by (simp_all add: check_vector_sum_def check_matrix_mul_def check_matrix_add_def)
  show ?thesis
    using uploads_launch_download_in_order
      [of Single "\<lambda>c. True" True "[]" 4 4 "[]" 4 4 4 4 4 4] v
    by (simp only: simp_thms)
qed

section \<open>Tolerance of the floating-point comparison\<close>

lemma equals_err_iff:
  "equals_err computed expected n tolerance \<longleftrightarrow>
     (\<forall>i<n. \<bar>computed ! i - expected ! i\<bar> \<le> tolerance)"
  by (induction n) (auto simp: less_Suc_eq)

text \<open>
  Claim C6, as amended. In vector\_sum\_float\_opt.cu and in the variant of
  matrix\_add\_nxm\_float.cu with gpuMatrixAdd the caller passes the tolerance \<open>EPSILON\<close>,
  the single-precision \<open>1e-5\<close> (that is \<open>2748779 / 2 ^ 38\<close>, below the real \<open>1e-5\<close>), to
  the comparison, which accepts exactly when every element \<open>i\<close> has
  \<open>|computed[i] - expected[i]| \<le> tolerance\<close>. The older variant of
  matrix\_add\_nxm\_float.cu passes no tolerance: the answer of its test is the answer of
  \<^verbatim>\<open>matrix_equals_float\<close> on the two arrays and the dimensions.
\<close>

theorem tolerance_passed_by_caller:
  "(test_result_vector_sum c expected vectorDim \<longleftrightarrow>
      (\<forall>i < unat vectorDim. \<bar>c ! i - expected ! i\<bar> \<le> EPSILON)) \<and>
   (test_result_matrix_add c expected matrixDimX matrixDimY \<longleftrightarrow>
      (\<forall>i < unat matrixDimX * unat matrixDimY. \<bar>c ! i - expected ! i\<bar> \<le> EPSILON)) \<and>
   (vector_equals_err c expected vectorDim tolerance \<longleftrightarrow>
      (\<forall>i < unat vectorDim. \<bar>c ! i - expected ! i\<bar> \<le> tolerance)) \<and>
   (matrix_equals_err c expected matrixDimX matrixDimY tolerance \<longleftrightarrow>
      (\<forall>i < unat matrixDimX * unat matrixDimY. \<bar>c ! i - expected ! i\<bar> \<le> tolerance)) \<and>
   EPSILON = 2748779 / 2 ^ 38 \<and> EPSILON < 1 / 100000 \<and>
   test_result_matrix_add_old matrix_equals c expected matrixDimX matrixDimY
     = matrix_equals c expected matrixDimX matrixDimY"
  by (simp add: test_result_vector_sum_def test_result_matrix_add_def
        test_result_matrix_add_old_def vector_equals_err_def matrix_equals_err_def
        equals_err_iff EPSILON_def)

theorem tolerance_passed_by_caller_witness:
  "test_result_vector_sum [3, 5] [3, 5 + 1 / 1000000] 2 \<and>
   \<not> test_result_vector_sum [3, 5] [3, 5 + 1 / 100000] 2 \<and>
   \<not> test_result_matrix_add [3, 5] [3, 6] 2 1"
proof -
  have two: "\<And>P. (\<forall>i<2::nat. P i) \<longleftrightarrow> P 0 \<and> P 1"
    by (auto simp: less_2_cases_iff)
  show ?thesis
    using tolerance_passed_by_caller [of "[3, 5]" "[3, 5 + 1 / 1000000]" 2 2 1 0 "\<lambda>c e x y. True"]
      tolerance_passed_by_caller [of "[3, 5]" "[3, 5 + 1 / 100000]" 2 2 1 0 "\<lambda>c e x y. True"]
      tolerance_passed_by_caller [of "[3, 5]" "[3, 6]" 2 2 1 0 "\<lambda>c e x y. True"]
    by (simp add: two)
qed

text \<open>
  Claim C6 as stated fails for the older variant of matrix\_add\_nxm\_float.cu: whatever
  \<^verbatim>\<open>matrix_equals_float\<close> computes, the test of that program cannot accept exactly when
  the elements are within the tolerance for every tolerance a caller may choose. On the
  arrays \<open>[0]\<close> and \<open>[1]\<close> the tolerances 0 and 2 ask for different answers, and the
  call has no argument to tell them apart.
\<close>

theorem older_matrix_add_test_ignores_tolerance:
  "\<not> (\<exists>matrix_equals. \<forall>tolerance.
        test_result_matrix_add_old matrix_equals [0] [1] 1 1
          = (\<forall>i < unat (1::u32) * unat (1::u32). \<bar>[0::real] ! i - [1] ! i\<bar> \<le> tolerance))"
proof
  assume "\<exists>matrix_equals. \<forall>tolerance.
        test_result_matrix_add_old matrix_equals [0] [1] 1 1
          = (\<forall>i < unat (1::u32) * unat (1::u32). \<bar>[0::real] ! i - [1] ! i\<bar> \<le> tolerance)"
  then obtain matrix_equals where all: "\<And>tolerance.
        test_result_matrix_add_old matrix_equals [0] [1] 1 1
          = (\<forall>i < unat (1::u32) * unat (1::u32). \<bar>[0::real] ! i - [1] ! i\<bar> \<le> tolerance)"
    by blast
  from all [of 0] have "\<not> test_result_matrix_add_old matrix_equals [0] [1] 1 1"
    by simp
  moreover from all [of 2] have "test_result_matrix_add_old matrix_equals [0] [1] 1 1"
    by simp
  ultimately show False by contradiction
qed

end
